theory Spec2Isabelle
  imports Main "HOL-Library.Word"
begin

unbundle bit_operations_syntax

section \<open>Machine words and bit helpers\<close>

type_synonym u8 = "8 word"
type_synonym u16 = "16 word"
type_synonym u32 = "32 word"
type_synonym u64 = "64 word"

text \<open>
  Modelled from the spec: \<open>cut_bits\<close> and \<open>replace_bits\<close> (bit_ops.h is not among the
  sources). \<open>cut_bits val pos bits\<close> returns \<open>bits\<close> bits of \<open>val\<close> starting at \<open>pos\<close>;
  \<open>replace_bits val pos bits rep\<close> returns \<open>val\<close> with those bits replaced by the low
  \<open>bits\<close> bits of \<open>rep\<close>.
\<close>

definition cut_bits :: "u32 \<Rightarrow> nat \<Rightarrow> nat \<Rightarrow> u32" where
  "cut_bits val pos bits = drop_bit pos val AND mask bits"

definition replace_bits :: "u32 \<Rightarrow> nat \<Rightarrow> nat \<Rightarrow> u32 \<Rightarrow> u32" where
  "replace_bits val pos bits rep =
     (val AND NOT (push_bit pos (mask bits))) OR push_bit pos (rep AND mask bits)"

section \<open>riscv32.c: the RV32 hart, traps and the interpreter loop\<close>

text \<open>
  The privilege levels and register indices of riscv.h (not among the sources): the
  numbering is the RISC-V one, level 2 being the reserved (hypervisor) level whose
  delegation word \<open>riscv32_create_vm\<close> fills with ones.
\<close>

definition PRIVILEGE_USER :: u8 where "PRIVILEGE_USER = 0"
definition PRIVILEGE_SUPERVISOR :: u8 where "PRIVILEGE_SUPERVISOR = 1"
definition PRIVILEGE_HYPERVISOR :: u8 where "PRIVILEGE_HYPERVISOR = 2"
definition PRIVILEGE_MACHINE :: u8 where "PRIVILEGE_MACHINE = 3"

definition INTERRUPT_MASK :: u32 where "INTERRUPT_MASK = 0x80000000"

definition REGISTER_ZERO :: nat where "REGISTER_ZERO = 0"
definition REGISTER_PC :: nat where "REGISTER_PC = 32"

text \<open>
  \<open>riscv32_vm_state_t\<close>, restricted to the fields riscv32.c reads or writes. The
  per-privilege CSR arrays (\<open>vm->csr.epc[priv]\<close> and so on) have four entries and are
  indexed by a \<open>uint8_t\<close> privilege level; every index the code forms is at most
  \<open>PRIVILEGE_MACHINE\<close>. \<open>csr_ideleg\<close> is the interrupt delegation array of the data
  model; riscv32.c never reads it.
\<close>

record riscv32_vm_state =
  wait_event :: u64
  registers :: "nat \<Rightarrow> u32"
  priv_mode :: u8
  csr_status :: u32
  csr_edeleg :: "u8 \<Rightarrow> u32"
  csr_ideleg :: "u8 \<Rightarrow> u32"
  csr_tvec :: "u8 \<Rightarrow> u32"
  csr_epc :: "u8 \<Rightarrow> u32"
  csr_cause :: "u8 \<Rightarrow> u32"
  csr_tval :: "u8 \<Rightarrow> u32"

text \<open>
  Modelled from the spec: the register-file boundary \<open>riscv32i_read_register_u\<close> and
  \<open>riscv32i_write_register_u\<close> (riscv32i.h is not among the sources). Register 0 reads
  as zero and writes to it are discarded at this boundary; every other index is a
  plain load or store of \<open>vm->registers\<close>.
\<close>

definition riscv32i_read_register_u :: "riscv32_vm_state \<Rightarrow> nat \<Rightarrow> u32" where
  "riscv32i_read_register_u vm reg = registers vm reg"

definition riscv32i_write_register_u :: "riscv32_vm_state \<Rightarrow> nat \<Rightarrow> u32 \<Rightarrow> riscv32_vm_state" where
  "riscv32i_write_register_u vm reg data =
     (if reg = REGISTER_ZERO then vm else vm\<lparr>registers := (registers vm)(reg := data)\<rparr>)"

definition riscv32_break :: "riscv32_vm_state \<Rightarrow> riscv32_vm_state" where
  "riscv32_break vm = vm\<lparr>wait_event := 0\<rparr>"

text \<open>
  The C expression \<open>1 << cause\<close> shifts an \<open>int\<close>: it is defined for a count below 32
  and undefined above. The model takes what the host yields for a wider count as the
  parameter \<open>wide\<close>, so that nothing proved below depends on it.
\<close>

definition shl_one :: "(u32 \<Rightarrow> u32) \<Rightarrow> u32 \<Rightarrow> u32" where
  "shl_one wide cause = (if cause < 32 then push_bit (unat cause) 1 else wide cause)"

text \<open>A host that keeps the low five bits of the shift count.\<close>

definition shl_count_masked :: "u32 \<Rightarrow> u32" where
  "shl_count_masked cause = push_bit (unat (cause AND 31)) 1"

text \<open>
  The delegation loop of \<open>riscv32_trap\<close>:
  \<^verbatim>\<open>for (priv=PRIVILEGE_MACHINE; priv>vm->priv_mode; --priv)
      if ((vm->csr.edeleg[priv] & (1 << cause)) == 0) break;\<close>
  started at \<open>priv\<close>; its value is the level at which the loop is left.
\<close>

function riscv32_trap_priv :: "(u32 \<Rightarrow> u32) \<Rightarrow> riscv32_vm_state \<Rightarrow> u32 \<Rightarrow> u8 \<Rightarrow> u8" where
  "riscv32_trap_priv wide vm cause priv =
     (if priv > priv_mode vm
      then (if csr_edeleg vm priv AND shl_one wide cause = 0 then priv
            else riscv32_trap_priv wide vm cause (priv - 1))
      else priv)"
  by pat_completeness auto
termination
  by (relation "measure (\<lambda>(wide, vm, cause, priv). unat priv)")
     (auto simp: word_less_nat_alt unat_minus_one intro!: measure_unat)

declare riscv32_trap_priv.simps [simp del]

definition riscv32_trap :: "(u32 \<Rightarrow> u32) \<Rightarrow> riscv32_vm_state \<Rightarrow> u32 \<Rightarrow> u32 \<Rightarrow> riscv32_vm_state" where
  "riscv32_trap wide vm cause tval =
     (let priv = riscv32_trap_priv wide vm cause PRIVILEGE_MACHINE;
          vm1 = vm\<lparr>csr_epc := (csr_epc vm)(priv := riscv32i_read_register_u vm REGISTER_PC)\<rparr>;
          vm2 = vm1\<lparr>csr_cause := (csr_cause vm1)(priv := cause)\<rparr>;
          vm3 = vm2\<lparr>csr_tval := (csr_tval vm2)(priv := tval)\<rparr>;
          vm4 = (if priv = PRIVILEGE_MACHINE then
                   (let s1 = replace_bits (csr_status vm3) 11 2 (ucast (priv_mode vm3));
                        s2 = replace_bits s1 7 1 (cut_bits s1 3 1);
                        s3 = s2 AND 0xFFFFFFF7
                    in vm3\<lparr>csr_status := s3\<rparr>)
                 else if priv = PRIVILEGE_SUPERVISOR then
                   (let s1 = replace_bits (csr_status vm3) 8 1 (ucast (priv_mode vm3));
                        s2 = replace_bits s1 5 1 (cut_bits s1 1 1);
                        s3 = s2 AND 0xFFFFFFFD
                    in vm3\<lparr>csr_status := s3\<rparr>)
                 else vm3);
          vm5 = vm4\<lparr>priv_mode := priv\<rparr>
      in riscv32_break vm5)"

definition riscv32_interrupt :: "(u32 \<Rightarrow> u32) \<Rightarrow> riscv32_vm_state \<Rightarrow> u32 \<Rightarrow> riscv32_vm_state" where
  "riscv32_interrupt wide vm cause = riscv32_trap wide vm (INTERRUPT_MASK OR cause) 0"

text \<open>
  The tail of one iteration of \<open>riscv32_run\<close>: after the hot loop has returned, the PC
  is set from the trap vector of the current privilege level. All arithmetic is on
  \<open>uint32_t\<close>, so \<open>cause << 2\<close> drops the two top bits of the cause.
\<close>

definition riscv32_run_vector :: "riscv32_vm_state \<Rightarrow> riscv32_vm_state" where
  "riscv32_run_vector vm =
     (if csr_cause vm (priv_mode vm) AND INTERRUPT_MASK \<noteq> 0 \<and> csr_tvec vm (priv_mode vm) AND 1 \<noteq> 0
      then riscv32i_write_register_u vm REGISTER_PC
             ((csr_tvec vm (priv_mode vm) AND NOT 3) + push_bit 2 (csr_cause vm (priv_mode vm)))
      else riscv32i_write_register_u vm REGISTER_PC (csr_tvec vm (priv_mode vm) AND NOT 3))"

text \<open>
  Modelled from the spec: what one instruction does (\<open>riscv32i_emulate\<close>,
  \<open>riscv32c_emulate\<close> and the handlers behind them are not among the sources). The
  spec fixes of an instruction only that its integer-register writes pass the
  register-file boundary, that a jump sets the PC itself and that it may call
  \<open>trap()\<close>; an instruction is therefore a list of such effects, computed from the
  hart state and the instruction word. Its destination register is a five-bit field.
\<close>

datatype insn_effect =
    WriteReg "5 word" u32
  | SetPC u32
  | Trap u32 u32

text \<open>
  The collaborators of the hot loop that are not among the sources, taken as
  parameters: \<open>tlb_fetch\<close> is the TLB hit (\<open>tlb_check\<close> and \<open>block_inside_page\<close> hold,
  and the four bytes are copied from the cached page); \<open>mmu_fetch\<close> is
  \<open>riscv32_mmu_op\<close> with \<open>MMU_EXEC\<close>, which yields the instruction word or raises the
  trap \<open>(cause, tval)\<close> and reports failure; \<open>shl_wide\<close> is the host's over-wide shift.
\<close>

record riscv32_env =
  tlb_fetch :: "riscv32_vm_state \<Rightarrow> u32 option"
  mmu_fetch :: "riscv32_vm_state \<Rightarrow> (u32 \<times> u32) + u32"
  riscv32c_emulate :: "riscv32_vm_state \<Rightarrow> u16 \<Rightarrow> insn_effect list"
  riscv32i_emulate :: "riscv32_vm_state \<Rightarrow> u32 \<Rightarrow> insn_effect list"
  shl_wide :: "u32 \<Rightarrow> u32"

definition RISCV32I_OPCODE_MASK :: u32 where "RISCV32I_OPCODE_MASK = 3"

fun apply_effect :: "riscv32_env \<Rightarrow> riscv32_vm_state \<Rightarrow> insn_effect \<Rightarrow> riscv32_vm_state" where
  "apply_effect env vm (WriteReg rd v) = riscv32i_write_register_u vm (unat rd) v"
| "apply_effect env vm (SetPC v) = vm\<lparr>registers := (registers vm)(REGISTER_PC := v)\<rparr>"
| "apply_effect env vm (Trap cause tval) = riscv32_trap (shl_wide env) vm cause tval"

fun apply_effects :: "riscv32_env \<Rightarrow> riscv32_vm_state \<Rightarrow> insn_effect list \<Rightarrow> riscv32_vm_state" where
  "apply_effects env vm [] = vm"
| "apply_effects env vm (e # es) = apply_effects env (apply_effect env vm e) es"

definition riscv32_exec_instruction :: "riscv32_env \<Rightarrow> riscv32_vm_state \<Rightarrow> u32 \<Rightarrow> riscv32_vm_state" where
  "riscv32_exec_instruction env vm instruction =
     (if instruction AND RISCV32I_OPCODE_MASK \<noteq> RISCV32I_OPCODE_MASK
      then (let vm1 = apply_effects env vm (riscv32c_emulate env vm (ucast instruction))
            in vm1\<lparr>registers := (registers vm1)(REGISTER_PC := registers vm1 REGISTER_PC + 2)\<rparr>)
      else (let vm1 = apply_effects env vm (riscv32i_emulate env vm instruction)
            in vm1\<lparr>registers := (registers vm1)(REGISTER_PC := registers vm1 REGISTER_PC + 4)\<rparr>))"

text \<open>One pass through the body of the \<open>while (vm->wait_event)\<close> loop.\<close>

definition riscv32_hot_step :: "riscv32_env \<Rightarrow> riscv32_vm_state \<Rightarrow> riscv32_vm_state" where
  "riscv32_hot_step env vm =
     (let vm0 = riscv32i_write_register_u vm REGISTER_ZERO 0 in
      case tlb_fetch env vm0 of
        Some instruction \<Rightarrow> riscv32_exec_instruction env vm0 instruction
      | None \<Rightarrow>
          (case mmu_fetch env vm0 of
             Inr instruction \<Rightarrow> riscv32_exec_instruction env vm0 instruction
           | Inl (cause, tval) \<Rightarrow> riscv32_trap (shl_wide env) vm0 cause tval))"

text \<open>
  \<open>riscv32_run_till_event\<close>: the hot loop runs until some event clears \<open>wait_event\<close>,
  which may never happen; not returning is the value \<open>None\<close>.
\<close>

partial_function (option) riscv32_run_till_event :: "riscv32_env \<Rightarrow> riscv32_vm_state \<Rightarrow> riscv32_vm_state option" where
  "riscv32_run_till_event env vm =
     (if wait_event vm \<noteq> 0 then riscv32_run_till_event env (riscv32_hot_step env vm) else Some vm)"

text \<open>The state after at most \<open>n\<close> passes of the hot loop.\<close>

fun riscv32_hot_steps :: "riscv32_env \<Rightarrow> nat \<Rightarrow> riscv32_vm_state \<Rightarrow> riscv32_vm_state" where
  "riscv32_hot_steps env 0 vm = vm"
| "riscv32_hot_steps env (Suc n) vm =
     (if wait_event vm \<noteq> 0 then riscv32_hot_steps env n (riscv32_hot_step env vm) else vm)"

text \<open>
  One iteration of the \<open>while (true)\<close> loop of \<open>riscv32_run\<close>: arm \<open>wait_event\<close>, run the
  hot loop, then set the PC from the trap vector.
\<close>

definition riscv32_run_iteration :: "riscv32_env \<Rightarrow> riscv32_vm_state \<Rightarrow> riscv32_vm_state option" where
  "riscv32_run_iteration env vm =
     (case riscv32_run_till_event env (vm\<lparr>wait_event := 1\<rparr>) of
        None \<Rightarrow> None
      | Some vm1 \<Rightarrow> Some (riscv32_run_vector vm1))"

text \<open>
  The state \<open>riscv32_create_vm\<close> builds, on the fields of the model: the structure is
  zeroed by \<open>memset\<close>, then the hart starts in machine mode with the delegation word
  of level 2 all ones and the PC at the start of RAM.
\<close>

definition riscv32_create_vm :: "u32 \<Rightarrow> riscv32_vm_state" where
  "riscv32_create_vm mem_begin =
     \<lparr> wait_event = 0,
       registers = (\<lambda>_. 0)(REGISTER_PC := mem_begin),
       priv_mode = PRIVILEGE_MACHINE,
       csr_status = 0,
       csr_edeleg = (\<lambda>_. 0)(PRIVILEGE_HYPERVISOR := 0xFFFFFFFF),
       csr_ideleg = (\<lambda>_. 0),
       csr_tvec = (\<lambda>_. 0),
       csr_epc = (\<lambda>_. 0),
       csr_cause = (\<lambda>_. 0),
       csr_tval = (\<lambda>_. 0) \<rparr>"

text \<open>
  The delegation rule in the spec's words: the target is the lowest level \<open>p\<close> between
  the current level \<open>m\<close> and \<open>MACHINE\<close> such that every level above \<open>p\<close> delegates the
  cause. \<open>deleg q\<close> says whether level \<open>q\<close> delegates it.
\<close>

definition privilege_levels :: "u8 list" where
  "privilege_levels = [PRIVILEGE_USER, PRIVILEGE_SUPERVISOR, PRIVILEGE_HYPERVISOR, PRIVILEGE_MACHINE]"

definition delegated_above :: "(u8 \<Rightarrow> bool) \<Rightarrow> u8 \<Rightarrow> bool" where
  "delegated_above deleg p = list_all (\<lambda>q. p < q \<longrightarrow> deleg q) privilege_levels"

definition lowest_delegated :: "(u8 \<Rightarrow> bool) \<Rightarrow> u8 \<Rightarrow> u8 \<Rightarrow> bool" where
  "lowest_delegated deleg m p =
     (m \<le> p \<and> p \<le> PRIVILEGE_MACHINE \<and> delegated_above deleg p \<and>
      list_all (\<lambda>p'. m \<le> p' \<and> delegated_above deleg p' \<longrightarrow> p \<le> p') privilege_levels)"

text \<open>
  A user-mode hart whose exception delegation words are all clear and whose interrupt
  delegation words are all set.
\<close>

definition ideleg_only_vm :: riscv32_vm_state where
  "ideleg_only_vm = (riscv32_create_vm 0x80000000)
     \<lparr> priv_mode := PRIVILEGE_USER, csr_edeleg := (\<lambda>_. 0), csr_ideleg := (\<lambda>_. 0xFFFFFFFF) \<rparr>"

text \<open>Whether level \<open>q\<close> delegates a cause, by bit index in either delegation array.\<close>

definition edeleg_bit_set :: "riscv32_vm_state \<Rightarrow> nat \<Rightarrow> u8 \<Rightarrow> bool" where
  "edeleg_bit_set vm idx q = bit (csr_edeleg vm q) idx"

definition ideleg_bit_set :: "riscv32_vm_state \<Rightarrow> nat \<Rightarrow> u8 \<Rightarrow> bool" where
  "ideleg_bit_set vm idx q = bit (csr_ideleg vm q) idx"

text \<open>
  A user-mode hart with supervisor interrupts enabled (\<open>SIE\<close>, bit 1 of status) whose
  machine level delegates cause 8, the environment call from user mode.
\<close>

definition ecall_vm :: riscv32_vm_state where
  "ecall_vm = (riscv32_create_vm 0x80000000)
     \<lparr> priv_mode := PRIVILEGE_USER, csr_status := 2,
       csr_edeleg := (\<lambda>_. 0)(PRIVILEGE_HYPERVISOR := 0xFFFFFFFF, PRIVILEGE_MACHINE := 0x100) \<rparr>"


text \<open>A machine-mode hart whose machine trap vector is \<open>0x1000\<close> in vectored mode.\<close>

definition vectored_vm :: riscv32_vm_state where
  "vectored_vm = (riscv32_create_vm 0x80000000) \<lparr> csr_tvec := (\<lambda>_. 0)(PRIVILEGE_MACHINE := 0x1001) \<rparr>"

text \<open>
  An environment in which every instruction fetch misses the TLB and faults with an
  instruction access fault (cause 1), and in which no instruction has any effect.
\<close>

definition faulting_env :: riscv32_env where
  "faulting_env =
     \<lparr> tlb_fetch = (\<lambda>_. None),
       mmu_fetch = (\<lambda>vm. Inl (1, registers vm REGISTER_PC)),
       riscv32c_emulate = (\<lambda>_ _. []),
       riscv32i_emulate = (\<lambda>_ _. []),
       shl_wide = shl_count_masked \<rparr>"

text \<open>
  An environment whose every instruction is \<open>addi x0, x0, 1\<close> (\<open>0x00100013\<close>), a write
  of 1 to register 0, fetched through the TLB.
\<close>

definition x0_writer_env :: riscv32_env where
  "x0_writer_env =
     \<lparr> tlb_fetch = (\<lambda>_. Some 0x00100013),
       mmu_fetch = (\<lambda>vm. Inl (1, registers vm REGISTER_PC)),
       riscv32c_emulate = (\<lambda>_ _. []),
       riscv32i_emulate = (\<lambda>_ _. [WriteReg 0 1]),
       shl_wide = shl_count_masked \<rparr>"

section \<open>rvjit.c: the JIT code cache\<close>

text \<open>
  The linkage kinds of a block under construction (rvjit.h is not among the sources;
  only \<open>LINKAGE_JMP\<close> is named by rvjit.c).
\<close>

datatype rvjit_linkage = LINKAGE_NONE | LINKAGE_TAIL | LINKAGE_JMP

text \<open>
  \<open>rvjit_block_t\<close> with its \<open>heap\<close>, restricted to the fields that the functions
  modelled here read or write; \<open>phys_addr_t\<close> and \<open>size_t\<close> are 64-bit words.
  \<^item> \<open>heap_blocks\<close> is the block registry, a hash map from physical PC to the entry
    point; \<open>heap_block_links\<close> is the link registry, from physical PC to the vector of
    patch sites waiting for that target.
  \<^item> \<open>heap_dirty_pages\<close> and \<open>heap_jited_pages\<close> are the two arrays of 32-bit words,
    \<open>None\<close> for a null pointer. They hold \<open>heap_dirty_mask + 1\<close> words each and every
    index the code forms is masked by \<open>heap_dirty_mask\<close>.
  \<^item> \<open>heap_bytes\<close> is the content of the code heap by offset.
  \<^item> \<open>links\<close> is the link list of the block under construction (target, patch site);
    \<open>emit\<close> is the state that belongs to the emitter of rvjit_emit.h.
\<close>

record 'e rvjit_block =
  heap_size :: u64
  heap_curr :: u64
  heap_bytes :: "u64 \<Rightarrow> u8"
  heap_blocks :: "u64 \<rightharpoonup> u64"
  heap_block_links :: "u64 \<rightharpoonup> u64 list"
  heap_dirty_pages :: "(u64 \<Rightarrow> u32) option"
  heap_jited_pages :: "(u64 \<Rightarrow> u32) option"
  heap_dirty_mask :: u64
  block_size :: u64
  linkage :: rvjit_linkage
  links :: "(u64 \<times> u64) list"
  emit :: 'e

text \<open>
  Modelled from the spec: \<open>hashmap_get\<close> (hashmap.h is not among the sources) yields
  the registered value, or 0 (a null pointer) when the key has none.
\<close>

definition hashmap_get :: "(u64 \<rightharpoonup> u64) \<Rightarrow> u64 \<Rightarrow> u64" where
  "hashmap_get m k = (case m k of None \<Rightarrow> 0 | Some v \<Rightarrow> v)"

text \<open>
  The word index and the bit mask of a page in the two bit matrices:
  \<^verbatim>\<open>size_t offset = (addr >> 17) & block->heap.dirty_mask;
  uint32_t mask = 1U << ((addr >> 12) & 0x1F);\<close>
\<close>

definition page_offset :: "'e rvjit_block \<Rightarrow> u64 \<Rightarrow> u64" where
  "page_offset block addr = drop_bit 17 addr AND heap_dirty_mask block"

definition page_mask :: "u64 \<Rightarrow> u32" where
  "page_mask addr = push_bit (unat (drop_bit 12 addr AND 0x1F)) 1"

definition rvjit_mark_jited_page :: "'e rvjit_block \<Rightarrow> u64 \<Rightarrow> 'e rvjit_block" where
  "rvjit_mark_jited_page block addr =
     (case heap_jited_pages block of
        None \<Rightarrow> block
      | Some jited \<Rightarrow>
          block\<lparr>heap_jited_pages :=
            Some (jited(page_offset block addr := jited (page_offset block addr) OR page_mask addr))\<rparr>)"

text \<open>
  \<open>rvjit_mark_dirty_page\<close> reads \<open>jited_pages\<close> and writes \<open>dirty_pages\<close> without a
  null check; dereferencing a null array is the value \<open>None\<close>. The atomic operations
  are modelled in program order.
\<close>

definition rvjit_mark_dirty_page :: "'e rvjit_block \<Rightarrow> u64 \<Rightarrow> 'e rvjit_block option" where
  "rvjit_mark_dirty_page block addr =
     (case heap_jited_pages block of
        None \<Rightarrow> None
      | Some jited \<Rightarrow>
          if jited (page_offset block addr) AND page_mask addr \<noteq> 0 then
            (case heap_dirty_pages block of
               None \<Rightarrow> None
             | Some dirty \<Rightarrow>
                 Some (block\<lparr>
                   heap_dirty_pages :=
                     Some (dirty(page_offset block addr := dirty (page_offset block addr) OR page_mask addr)),
                   heap_jited_pages :=
                     Some (jited(page_offset block addr :=
                       jited (page_offset block addr) AND NOT (page_mask addr)))\<rparr>))
          else Some block)"

text \<open>
  The loop of \<open>rvjit_mark_dirty_mem\<close>, \<open>for (size_t i=0; i<size; i += 4096)\<close>, from
  counter \<open>i\<close>. The counter is a \<open>size_t\<close> and wraps; not returning is \<open>None\<close>.
\<close>

partial_function (option) rvjit_mark_dirty_loop ::
    "'e rvjit_block \<Rightarrow> u64 \<Rightarrow> u64 \<Rightarrow> u64 \<Rightarrow> 'e rvjit_block option" where
  "rvjit_mark_dirty_loop block addr sz i =
     (if i < sz then
        Option.bind (rvjit_mark_dirty_page block (addr + i))
          (\<lambda>block'. rvjit_mark_dirty_loop block' addr sz (i + 4096))
      else Some block)"

definition rvjit_mark_dirty_mem :: "'e rvjit_block \<Rightarrow> u64 \<Rightarrow> u64 \<Rightarrow> 'e rvjit_block option" where
  "rvjit_mark_dirty_mem block addr sz =
     (if heap_dirty_pages block = None then Some block
      else rvjit_mark_dirty_loop block addr sz 0)"

text \<open>
  \<open>rvjit_page_needs_flush\<close>: the dirty bit is read and, when set, cleared by the
  atomic AND, whose result is the previous word.
\<close>

definition rvjit_page_needs_flush :: "'e rvjit_block \<Rightarrow> u64 \<Rightarrow> bool \<times> 'e rvjit_block" where
  "rvjit_page_needs_flush block addr =
     (case heap_dirty_pages block of
        None \<Rightarrow> (False, block)
      | Some dirty \<Rightarrow>
          if dirty (page_offset block addr) AND page_mask addr \<noteq> 0 then
            (dirty (page_offset block addr) AND page_mask addr \<noteq> 0,
             block\<lparr>heap_dirty_pages :=
               Some (dirty(page_offset block addr :=
                 dirty (page_offset block addr) AND NOT (page_mask addr)))\<rparr>)
          else (False, block))"

text \<open>
  One pass of the removal loop of \<open>rvjit_block_lookup\<close> at address \<open>k\<close>: the block entry
  is removed, and the link vector of \<open>k\<close>, when there is one, is freed and its entry
  removed.
\<close>

definition rvjit_remove_at :: "'e rvjit_block \<Rightarrow> u64 \<Rightarrow> 'e rvjit_block" where
  "rvjit_remove_at block k =
     (let b1 = block\<lparr>heap_blocks := (heap_blocks block)(k := None)\<rparr> in
      case heap_block_links b1 k of
        None \<Rightarrow> b1
      | Some linked_blocks \<Rightarrow> b1\<lparr>heap_block_links := (heap_block_links b1)(k := None)\<rparr>)"

definition rvjit_block_lookup :: "'e rvjit_block \<Rightarrow> u64 \<Rightarrow> u64 \<times> 'e rvjit_block" where
  "rvjit_block_lookup block phys_pc =
     (case rvjit_page_needs_flush block phys_pc of
        (True, b1) \<Rightarrow>
          (0, fold (\<lambda>i b. rvjit_remove_at b ((phys_pc AND NOT 0xFFF) + of_nat i)) [0..<4096] b1)
      | (False, b1) \<Rightarrow> (hashmap_get (heap_blocks b1) phys_pc, b1))"

text \<open>
  Modelled from the spec: \<open>vma_clean\<close> (vma_ops.h is not among the sources) releases
  the physical backing of the heap and keeps the mapping, so that the heap reads as
  zeroes; \<open>rvjit_emit_init\<close> (rvjit_emit.h is not among the sources) resets the
  emitter's own state, to the initial state \<open>e0\<close> taken as a parameter.
\<close>

definition vma_clean :: "'e rvjit_block \<Rightarrow> 'e rvjit_block" where
  "vma_clean block = block\<lparr>heap_bytes := (\<lambda>_. 0)\<rparr>"

definition rvjit_emit_init :: "'e \<Rightarrow> 'e rvjit_block \<Rightarrow> 'e rvjit_block" where
  "rvjit_emit_init e0 block = block\<lparr>emit := e0\<rparr>"

definition rvjit_linker_cleanup :: "'e rvjit_block \<Rightarrow> 'e rvjit_block" where
  "rvjit_linker_cleanup block = block\<lparr>heap_block_links := Map.empty\<rparr>"

definition rvjit_block_init :: "'e \<Rightarrow> 'e rvjit_block \<Rightarrow> 'e rvjit_block" where
  "rvjit_block_init e0 block =
     rvjit_emit_init e0 (block\<lparr>block_size := 0, linkage := LINKAGE_JMP, links := []\<rparr>)"

text \<open>
  \<open>rvjit_flush_cache\<close>. The loop over the dirty words runs the counter from 0 to
  \<open>dirty_mask\<close>, the last index of the array.
\<close>

definition rvjit_flush_cache :: "'e \<Rightarrow> 'e rvjit_block \<Rightarrow> 'e rvjit_block" where
  "rvjit_flush_cache e0 block =
     (let b1 = (if heap_curr block > 0x10000 then vma_clean block else block);
          b2 = b1\<lparr>heap_blocks := Map.empty\<rparr>;
          b3 = b2\<lparr>heap_curr := 0\<rparr>;
          b4 = rvjit_linker_cleanup b3;
          b5 = (case heap_dirty_pages b4 of
                  None \<Rightarrow> b4
                | Some dirty \<Rightarrow>
                    b4\<lparr>heap_dirty_pages :=
                      Some (fold (\<lambda>i d. d(of_nat i := 0)) [0..<Suc (unat (heap_dirty_mask b4))] dirty)\<rparr>)
      in rvjit_block_init e0 b5)"

text \<open>
  Vocabulary for the properties of the dirty-page protocol: the number of the 4 KiB
  page of an address, the index of its bit in a word, whether the dirty (jited) bit of the page of an address is set,
  and whether memory tracking is on (both arrays allocated, as
  \<open>rvjit_init_memtracking\<close> leaves them).
\<close>

definition page_of :: "u64 \<Rightarrow> u64" where
  "page_of addr = drop_bit 12 addr"

definition page_bit :: "u64 \<Rightarrow> nat" where
  "page_bit addr = unat (drop_bit 12 addr AND 0x1F)"

definition page_dirty :: "'e rvjit_block \<Rightarrow> u64 \<Rightarrow> bool" where
  "page_dirty block addr =
     (case heap_dirty_pages block of
        None \<Rightarrow> False
      | Some dirty \<Rightarrow> dirty (page_offset block addr) AND page_mask addr \<noteq> 0)"

definition page_jited :: "'e rvjit_block \<Rightarrow> u64 \<Rightarrow> bool" where
  "page_jited block addr =
     (case heap_jited_pages block of
        None \<Rightarrow> False
      | Some jited \<Rightarrow> jited (page_offset block addr) AND page_mask addr \<noteq> 0)"

definition memtracking :: "'e rvjit_block \<Rightarrow> bool" where
  "memtracking block = (heap_dirty_pages block \<noteq> None \<and> heap_jited_pages block \<noteq> None)"

text \<open>
  A heap without memory tracking (both arrays null, as before
  \<open>rvjit_init_memtracking\<close>) that holds one block, at physical PC \<open>0x1000\<close>.
\<close>

definition untracked_block :: "unit rvjit_block" where
  "untracked_block =
     \<lparr> heap_size = 0x1000000, heap_curr = 0x40, heap_bytes = (\<lambda>_. 0),
       heap_blocks = [0x1000 \<mapsto> 0x7F0000000000], heap_block_links = Map.empty,
       heap_dirty_pages = None, heap_jited_pages = None, heap_dirty_mask = 0,
       block_size = 0, linkage = LINKAGE_JMP, links = [], emit = () \<rparr>"

text \<open>
  A heap with memory tracking over 2048 words that holds one block, at physical PC
  \<open>0x1234\<close>, with the jited bit of its page set, and a pending link list for \<open>0x1238\<close>.
\<close>

definition tracked_block :: "unit rvjit_block" where
  "tracked_block = rvjit_mark_jited_page
     \<lparr> heap_size = 0x1000000, heap_curr = 0x20000, heap_bytes = (\<lambda>_. 0x90),
       heap_blocks = [0x1234 \<mapsto> 0x7F0000000000], heap_block_links = [0x1238 \<mapsto> [0x7F0000000010]],
       heap_dirty_pages = Some (\<lambda>_. 0), heap_jited_pages = Some (\<lambda>_. 0), heap_dirty_mask = 0x7FF,
       block_size = 12, linkage = LINKAGE_NONE, links = [(0x2000, 0x7F0000000020)], emit = () \<rparr> 0x1234"

section \<open>riscv_csr.c: the CSR file\<close>

text \<open>
  The build modelled is the default one: \<open>USE_RV64\<close> and \<open>USE_FPU\<close> defined,
  \<open>USE_PRECISE_FS\<close> and \<open>USE_RVV\<close> not; \<open>maxlen_t\<close> is a 64-bit word.

  Modelled from the spec: \<open>bit_cut\<close>, \<open>bit_replace\<close> and \<open>bit_mask\<close> (bit_ops.h is not
  among the sources). \<open>bit_cut val pos bits\<close> returns \<open>bits\<close> bits of \<open>val\<close> starting at
  \<open>pos\<close>; \<open>bit_replace val pos bits rep\<close> returns \<open>val\<close> with those bits replaced.
\<close>

definition bit_mask :: "nat \<Rightarrow> u64" where
  "bit_mask count = mask count"

definition bit_cut :: "u64 \<Rightarrow> nat \<Rightarrow> nat \<Rightarrow> u64" where
  "bit_cut val pos bits = drop_bit pos val AND bit_mask bits"

definition bit_replace :: "u64 \<Rightarrow> nat \<Rightarrow> nat \<Rightarrow> u64 \<Rightarrow> u64" where
  "bit_replace val pos bits rep =
     (val AND NOT (push_bit pos (bit_mask bits))) OR push_bit pos (rep AND bit_mask bits)"

text \<open>The three read-modify-write operation kinds.\<close>

datatype csr_op = CSR_SWAP | CSR_SETBITS | CSR_CLEARBITS

text \<open>The rounding mode of the host floating-point environment.\<close>

datatype host_round = FE_TONEAREST | FE_TOWARDZERO | FE_DOWNWARD | FE_UPWARD

text \<open>
  \<open>rvvm_hart_t\<close>, restricted to what riscv_csr.c reads or writes. The per-privilege
  arrays are indexed by privilege level. \<open>machine_rv64\<close> is \<open>vm->machine->rv64\<close>.
  \<^item> \<open>hart_stimecmp\<close> is the value held by the supervisor timer comparator.
  \<^item> \<open>pending_irqs\<close> is the mask of interrupts raised from outside, which
    \<open>riscv_interrupts_raised\<close> reads and \<open>riscv_interrupt\<close>,
    \<open>riscv_interrupt_clear\<close> set and clear.
  \<^item> \<open>hart_tlb\<close> is the TLB as a map from virtual page to host page, and
    \<open>tlb_flushes\<close> counts the calls of \<open>riscv_tlb_flush\<close>.
  \<^item> \<open>host_fflags\<close> is what \<open>fpu_get_exceptions\<close> returns, the exception flags
    accrued by the host FPU; \<open>host_rm\<close> is the host rounding mode.
\<close>

record rvvm_hart =
  rv64 :: bool
  machine_rv64 :: bool
  hart_priv_mode :: u8
  hart_mmu_mode :: u8
  hart_root_page_table :: u64
  hart_stimecmp :: u64
  pending_irqs :: u32
  hart_tlb :: "u64 \<rightharpoonup> u64"
  tlb_flushes :: nat
  host_fflags :: u32
  host_rm :: host_round
  hcsr_status :: u64
  hcsr_isa :: u64
  hcsr_ie :: u64
  hcsr_ip :: u64
  hcsr_fcsr :: u64
  hcsr_hartid :: u64
  hcsr_mseccfg :: u64
  hcsr_edeleg :: "u8 \<Rightarrow> u64"
  hcsr_ideleg :: "u8 \<Rightarrow> u64"
  hcsr_tvec :: "u8 \<Rightarrow> u64"
  hcsr_scratch :: "u8 \<Rightarrow> u64"
  hcsr_epc :: "u8 \<Rightarrow> u64"
  hcsr_cause :: "u8 \<Rightarrow> u64"
  hcsr_tval :: "u8 \<Rightarrow> u64"
  hcsr_counteren :: "u8 \<Rightarrow> u64"
  hcsr_envcfg :: "u8 \<Rightarrow> u64"

text \<open>
  What riscv_csr.c takes from files that are not among the sources, as parameters:
  the mask constants of riscv_csr.h; the machine timer \<open>rvtimer_get\<close>; the bytes
  \<open>rvvm_randombytes\<close> delivers; the value \<open>rvvm_mimpid\<close> derives from the version
  string; the command-line switches \<open>rvvm_has_arg("sv48")\<close> and \<open>("sv57")\<close>; the
  predicates \<open>riscv_csr_timer_enabled\<close>, \<open>riscv_csr_seed_enabled\<close>,
  \<open>riscv_csr_sstc_enabled\<close> and \<open>fpu_is_enabled\<close>; and the procedures
  \<open>riscv_update_xlen\<close> and \<open>riscv_hart_check_interrupts\<close>.
\<close>

record csr_env =
  CSR_SSTATUS_MASK :: u64
  CSR_MSTATUS_MASK :: u64
  CSR_SEIP_MASK :: u64
  CSR_MEIP_MASK :: u64
  CSR_COUNTEREN_MASK :: u64
  CSR_SENVCFG_MASK :: u64
  CSR_MENVCFG_MASK :: u64
  CSR_MSECCFG_MASK :: u64
  CSR_MEDELEG_MASK :: u64
  CSR_MIDELEG_MASK :: u64
  rvtimer_get :: u64
  rvvm_randombytes :: u16
  rvvm_mimpid :: u32
  has_arg_sv48 :: bool
  has_arg_sv57 :: bool
  riscv_csr_timer_enabled :: "rvvm_hart \<Rightarrow> bool"
  riscv_csr_seed_enabled :: "rvvm_hart \<Rightarrow> bool"
  riscv_csr_sstc_enabled :: "rvvm_hart \<Rightarrow> bool"
  fpu_is_enabled :: "rvvm_hart \<Rightarrow> bool"
  riscv_update_xlen :: "rvvm_hart \<Rightarrow> rvvm_hart"
  riscv_hart_check_interrupts :: "rvvm_hart \<Rightarrow> rvvm_hart"

text \<open>
  The CSR numbers and field constants of riscv_csr.h (not among the sources), which
  are those of the RISC-V privileged architecture.
\<close>

definition CSR_FFLAGS :: u32 where "CSR_FFLAGS = 0x001"
definition CSR_FRM :: u32 where "CSR_FRM = 0x002"
definition CSR_FCSR :: u32 where "CSR_FCSR = 0x003"
definition CSR_SEED :: u32 where "CSR_SEED = 0x015"
definition CSR_CYCLE :: u32 where "CSR_CYCLE = 0xC00"
definition CSR_TIME :: u32 where "CSR_TIME = 0xC01"
definition CSR_INSTRET :: u32 where "CSR_INSTRET = 0xC02"
definition CSR_CYCLEH :: u32 where "CSR_CYCLEH = 0xC80"
definition CSR_TIMEH :: u32 where "CSR_TIMEH = 0xC81"
definition CSR_INSTRETH :: u32 where "CSR_INSTRETH = 0xC82"
definition CSR_SSTATUS :: u32 where "CSR_SSTATUS = 0x100"
definition CSR_SIE :: u32 where "CSR_SIE = 0x104"
definition CSR_STVEC :: u32 where "CSR_STVEC = 0x105"
definition CSR_SCOUNTEREN :: u32 where "CSR_SCOUNTEREN = 0x106"
definition CSR_SENVCFG :: u32 where "CSR_SENVCFG = 0x10A"
definition CSR_SSCRATCH :: u32 where "CSR_SSCRATCH = 0x140"
definition CSR_SEPC :: u32 where "CSR_SEPC = 0x141"
definition CSR_SCAUSE :: u32 where "CSR_SCAUSE = 0x142"
definition CSR_STVAL :: u32 where "CSR_STVAL = 0x143"
definition CSR_SIP :: u32 where "CSR_SIP = 0x144"
definition CSR_STIMECMP :: u32 where "CSR_STIMECMP = 0x14D"
definition CSR_STIMECMPH :: u32 where "CSR_STIMECMPH = 0x15D"
definition CSR_SATP :: u32 where "CSR_SATP = 0x180"
definition CSR_MVENDORID :: u32 where "CSR_MVENDORID = 0xF11"
definition CSR_MARCHID :: u32 where "CSR_MARCHID = 0xF12"
definition CSR_MIMPID :: u32 where "CSR_MIMPID = 0xF13"
definition CSR_MHARTID :: u32 where "CSR_MHARTID = 0xF14"
definition CSR_MSTATUS :: u32 where "CSR_MSTATUS = 0x300"
definition CSR_MISA :: u32 where "CSR_MISA = 0x301"
definition CSR_MEDELEG :: u32 where "CSR_MEDELEG = 0x302"
definition CSR_MIDELEG :: u32 where "CSR_MIDELEG = 0x303"
definition CSR_MIE :: u32 where "CSR_MIE = 0x304"
definition CSR_MTVEC :: u32 where "CSR_MTVEC = 0x305"
definition CSR_MCOUNTEREN :: u32 where "CSR_MCOUNTEREN = 0x306"
definition CSR_MENVCFG :: u32 where "CSR_MENVCFG = 0x30A"
definition CSR_MSTATUSH :: u32 where "CSR_MSTATUSH = 0x310"
definition CSR_MENVCFGH :: u32 where "CSR_MENVCFGH = 0x31A"
definition CSR_MCOUNTINHIBIT :: u32 where "CSR_MCOUNTINHIBIT = 0x320"
definition CSR_MSCRATCH :: u32 where "CSR_MSCRATCH = 0x340"
definition CSR_MEPC :: u32 where "CSR_MEPC = 0x341"
definition CSR_MCAUSE :: u32 where "CSR_MCAUSE = 0x342"
definition CSR_MTVAL :: u32 where "CSR_MTVAL = 0x343"
definition CSR_MIP :: u32 where "CSR_MIP = 0x344"
definition CSR_MSECCFG :: u32 where "CSR_MSECCFG = 0x747"
definition CSR_MSECCFGH :: u32 where "CSR_MSECCFGH = 0x757"
definition CSR_MCYCLE :: u32 where "CSR_MCYCLE = 0xB00"
definition CSR_MINSTRET :: u32 where "CSR_MINSTRET = 0xB02"
definition CSR_MCYCLEH :: u32 where "CSR_MCYCLEH = 0xB80"
definition CSR_MINSTRETH :: u32 where "CSR_MINSTRETH = 0xB82"

definition CSR_MISA_RV32 :: u64 where "CSR_MISA_RV32 = 0x40000000"
definition CSR_MISA_RV64 :: u64 where "CSR_MISA_RV64 = 0x8000000000000000"
definition CSR_STATUS_TVM :: u64 where "CSR_STATUS_TVM = 0x100000"

definition CSR_SATP_MODE_PHYS :: u8 where "CSR_SATP_MODE_PHYS = 0"
definition CSR_SATP_MODE_SV32 :: u8 where "CSR_SATP_MODE_SV32 = 1"
definition CSR_SATP_MODE_SV39 :: u8 where "CSR_SATP_MODE_SV39 = 8"
definition CSR_SATP_MODE_SV48 :: u8 where "CSR_SATP_MODE_SV48 = 9"
definition CSR_SATP_MODE_SV57 :: u8 where "CSR_SATP_MODE_SV57 = 10"
definition MMU_PAGE_SHIFT :: nat where "MMU_PAGE_SHIFT = 12"

definition FS_OFF :: u64 where "FS_OFF = 0"
definition FS_INITIAL :: u64 where "FS_INITIAL = 1"
definition FS_CLEAN :: u64 where "FS_CLEAN = 2"
definition FS_DIRTY :: u64 where "FS_DIRTY = 3"

definition RM_RNE :: u64 where "RM_RNE = 0"
definition RM_RTZ :: u64 where "RM_RTZ = 1"
definition RM_RDN :: u64 where "RM_RDN = 2"
definition RM_RUP :: u64 where "RM_RUP = 3"
definition RM_RMM :: u64 where "RM_RMM = 4"

definition INTERRUPT_STIMER :: nat where "INTERRUPT_STIMER = 5"

text \<open>
  Modelled from the spec: \<open>riscv_csr_readonly\<close> and \<open>riscv_csr_privilege\<close>
  (riscv_csr.h is not among the sources). A CSR is read-only when the upper two bits
  of its 12-bit number are 11; the privilege it needs is \<open>(csr_id >> 8) & 3\<close>.
\<close>

definition riscv_csr_readonly :: "u32 \<Rightarrow> bool" where
  "riscv_csr_readonly csr_id = (drop_bit 10 csr_id AND 3 = 3)"

definition riscv_csr_privilege :: "u32 \<Rightarrow> u8" where
  "riscv_csr_privilege csr_id = ucast (drop_bit 8 csr_id AND 3)"

text \<open>
  Modelled from the spec: \<open>riscv_tlb_flush\<close> (riscv_mmu.c is not among the sources)
  marks every TLB entry invalid; \<open>riscv_interrupts_raised\<close>, \<open>riscv_interrupt\<close> and
  \<open>riscv_interrupt_clear\<close> (riscv_hart.c is not among the sources) read, set and clear
  bits of the mask of raised interrupts; the comparator of \<open>rvtimecmp_pending\<close> is
  pending when its value is at most the current time.
\<close>

definition riscv_tlb_flush :: "rvvm_hart \<Rightarrow> rvvm_hart" where
  "riscv_tlb_flush vm = vm\<lparr>hart_tlb := Map.empty, tlb_flushes := Suc (tlb_flushes vm)\<rparr>"

definition riscv_interrupts_raised :: "rvvm_hart \<Rightarrow> u64" where
  "riscv_interrupts_raised vm = ucast (pending_irqs vm)"

definition riscv_interrupt :: "rvvm_hart \<Rightarrow> nat \<Rightarrow> rvvm_hart" where
  "riscv_interrupt vm irq = vm\<lparr>pending_irqs := pending_irqs vm OR push_bit irq 1\<rparr>"

definition riscv_interrupt_clear :: "rvvm_hart \<Rightarrow> nat \<Rightarrow> rvvm_hart" where
  "riscv_interrupt_clear vm irq = vm\<lparr>pending_irqs := pending_irqs vm AND NOT (push_bit irq 1)\<rparr>"

definition rvtimecmp_pending :: "csr_env \<Rightarrow> rvvm_hart \<Rightarrow> bool" where
  "rvtimecmp_pending env vm = (hart_stimecmp vm \<le> rvtimer_get env)"

text \<open>
  \<open>riscv_mkmisa\<close>. \<open>rvvm_strfind\<close> (utils.h is not among the sources) finds a substring;
  the letters up to the first underscore each set the bit of their position in the
  alphabet.
\<close>

fun rvvm_strfind :: "string \<Rightarrow> string \<Rightarrow> bool" where
  "rvvm_strfind [] pat = (pat = [])"
| "rvvm_strfind (c # cs) pat = (take (length pat) (c # cs) = pat \<or> rvvm_strfind cs pat)"

fun riscv_mkmisa_letters :: "string \<Rightarrow> u64 \<Rightarrow> u64" where
  "riscv_mkmisa_letters [] ret = ret"
| "riscv_mkmisa_letters (c # cs) ret =
     (if c = CHR ''_'' then ret
      else riscv_mkmisa_letters cs
             (if (of_char (CHR ''a'') :: nat) \<le> of_char c \<and> (of_char c :: nat) \<le> of_char (CHR ''z'')
              then ret OR push_bit (of_char c - of_char (CHR ''a'') :: nat) 1
              else ret))"

definition riscv_mkmisa :: "string \<Rightarrow> u64" where
  "riscv_mkmisa str =
     (if rvvm_strfind str ''rv64'' then riscv_mkmisa_letters (drop 4 str) CSR_MISA_RV64
      else if rvvm_strfind str ''rv32'' then riscv_mkmisa_letters (drop 4 str) CSR_MISA_RV32
      else riscv_mkmisa_letters str 0)"

text \<open>
  The helpers. Each takes the CSR word and the caller's value \<open>dest\<close> and yields the
  new CSR word and the new \<open>dest\<close>; the helpers that can refuse yield a success flag
  first. In 32-bit mode the mask is cut to its low 32 bits.
\<close>

definition riscv_csr_helper_masked :: "rvvm_hart \<Rightarrow> u64 \<Rightarrow> u64 \<Rightarrow> u64 \<Rightarrow> csr_op \<Rightarrow> u64 \<times> u64" where
  "riscv_csr_helper_masked vm csr dest mask0 op =
     (let tmp = csr;
          m = (if \<not> rv64 vm then mask0 AND 0xFFFFFFFF else mask0);
          csr' = (case op of
                    CSR_SWAP \<Rightarrow> (csr AND NOT m) OR (dest AND m)
                  | CSR_SETBITS \<Rightarrow> csr OR (dest AND m)
                  | CSR_CLEARBITS \<Rightarrow> csr AND NOT (dest AND m))
      in (csr', tmp AND m))"

definition riscv_csr_helper :: "rvvm_hart \<Rightarrow> u64 \<Rightarrow> u64 \<Rightarrow> csr_op \<Rightarrow> u64 \<times> u64" where
  "riscv_csr_helper vm csr dest op =
     (if rv64 vm then
        (let tmp = csr;
             csr' = (case op of
                       CSR_SWAP \<Rightarrow> dest
                     | CSR_SETBITS \<Rightarrow> csr OR dest
                     | CSR_CLEARBITS \<Rightarrow> csr AND NOT dest)
         in (csr', tmp))
      else riscv_csr_helper_masked vm csr dest (- 1) op)"

definition riscv_csr_helper_l :: "rvvm_hart \<Rightarrow> u64 \<Rightarrow> u64 \<Rightarrow> u64 \<Rightarrow> csr_op \<Rightarrow> u64 \<times> u64" where
  "riscv_csr_helper_l vm csr dest mask0 op =
     (let (tmp, dest') = riscv_csr_helper_masked vm csr dest mask0 op
      in (if rv64 vm then tmp else bit_replace csr 0 32 tmp, dest'))"

definition riscv_csr_helper_h :: "rvvm_hart \<Rightarrow> u64 \<Rightarrow> u64 \<Rightarrow> u64 \<Rightarrow> csr_op \<Rightarrow> bool \<times> u64 \<times> u64" where
  "riscv_csr_helper_h vm csr dest mask0 op =
     (if \<not> rv64 vm then
        (let (tmp, dest') = riscv_csr_helper_masked vm (drop_bit 32 csr) dest (drop_bit 32 mask0) op
         in (True, bit_replace csr 32 32 tmp, dest'))
      else (False, csr, dest))"

definition riscv_csr_const :: "rvvm_hart \<Rightarrow> u64 \<Rightarrow> bool \<times> rvvm_hart \<times> u64" where
  "riscv_csr_const vm val = (True, vm, val)"

definition riscv_csr_zero :: "rvvm_hart \<Rightarrow> bool \<times> rvvm_hart \<times> u64" where
  "riscv_csr_zero vm = riscv_csr_const vm 0"

definition riscv_csr_zero_h :: "rvvm_hart \<Rightarrow> u64 \<Rightarrow> bool \<times> rvvm_hart \<times> u64" where
  "riscv_csr_zero_h vm dest = (if \<not> rv64 vm then riscv_csr_const vm 0 else (False, vm, dest))"

definition riscv_csr_time :: "csr_env \<Rightarrow> rvvm_hart \<Rightarrow> u64 \<Rightarrow> bool \<times> rvvm_hart \<times> u64" where
  "riscv_csr_time env vm dest =
     (if riscv_csr_timer_enabled env vm then riscv_csr_const vm (rvtimer_get env)
      else (False, vm, dest))"

definition riscv_csr_timeh :: "csr_env \<Rightarrow> rvvm_hart \<Rightarrow> u64 \<Rightarrow> bool \<times> rvvm_hart \<times> u64" where
  "riscv_csr_timeh env vm dest =
     (if \<not> rv64 vm \<and> riscv_csr_timer_enabled env vm
      then riscv_csr_const vm (drop_bit 32 (rvtimer_get env))
      else (False, vm, dest))"

definition riscv_csr_seed :: "csr_env \<Rightarrow> rvvm_hart \<Rightarrow> u64 \<Rightarrow> bool \<times> rvvm_hart \<times> u64" where
  "riscv_csr_seed env vm dest =
     (if riscv_csr_seed_enabled env vm then riscv_csr_const vm (ucast (rvvm_randombytes env))
      else (False, vm, dest))"

definition riscv_csr_misa :: "csr_env \<Rightarrow> rvvm_hart \<Rightarrow> u64 \<Rightarrow> csr_op \<Rightarrow> bool \<times> rvvm_hart \<times> u64" where
  "riscv_csr_misa env vm dest op =
     (let misa0 = hcsr_isa vm OR riscv_mkmisa ''imafdcbsu'';
          (misa, dest') = riscv_csr_helper vm misa0 dest op;
          vm' = (if hcsr_isa vm AND CSR_MISA_RV64 \<noteq> 0 \<and> misa AND CSR_MISA_RV32 \<noteq> 0 then
                   riscv_update_xlen env (vm\<lparr>hcsr_isa := CSR_MISA_RV32\<rparr>)
                 else if hcsr_isa vm AND CSR_MISA_RV32 \<noteq> 0 \<and> misa AND drop_bit 32 CSR_MISA_RV64 \<noteq> 0 then
                   (if machine_rv64 vm then riscv_update_xlen env (vm\<lparr>hcsr_isa := CSR_MISA_RV64\<rparr>)
                    else vm)
                 else vm)
      in (True, vm', dest'))"

definition riscv_csr_sd_bit :: "rvvm_hart \<Rightarrow> u64" where
  "riscv_csr_sd_bit vm = (if rv64 vm then 0x8000000000000000 else 0x80000000)"

text \<open>
  The validation of the status fields that \<open>riscv_csr_status\<close> performs after the
  masked update: UXL and SXL (on a 64-bit machine), MPP, FS, VS and XS.
\<close>

definition riscv_csr_status_validate :: "bool \<Rightarrow> u64 \<Rightarrow> u64" where
  "riscv_csr_status_validate machine64 status0 =
     (let status1 = (if machine64 then
                       (let s = (if bit_cut status0 32 2 \<noteq> 1 \<and> bit_cut status0 32 2 \<noteq> 2
                                 then bit_replace status0 32 2 2 else status0)
                        in (if bit_cut s 34 2 \<noteq> 1 \<and> bit_cut s 34 2 \<noteq> 2
                            then bit_replace s 34 2 2 else s))
                     else status0);
          status2 = (if bit_cut status1 11 2 = 2 then bit_replace status1 11 2 0 else status1);
          fs = (if bit_cut status2 13 2 \<noteq> FS_OFF \<and> bit_cut status2 13 2 \<noteq> FS_DIRTY
                then FS_DIRTY else bit_cut status2 13 2);
          status3 = (if bit_cut status2 13 2 \<noteq> FS_OFF \<and> bit_cut status2 13 2 \<noteq> FS_DIRTY
                     then bit_replace status2 13 2 FS_DIRTY else status2);
          vs = (if bit_cut status3 9 2 \<noteq> FS_OFF then FS_OFF else bit_cut status3 9 2);
          status4 = (if bit_cut status3 9 2 \<noteq> FS_OFF then bit_replace status3 9 2 FS_OFF else status3);
          xs = max fs vs
      in bit_replace status4 15 2 xs)"

definition riscv_csr_status :: "csr_env \<Rightarrow> rvvm_hart \<Rightarrow> u64 \<Rightarrow> u64 \<Rightarrow> csr_op \<Rightarrow> bool \<times> rvvm_hart \<times> u64" where
  "riscv_csr_status env vm dest mask0 op =
     (let old_status = hcsr_status vm;
          (status0, dest0) = riscv_csr_helper_masked vm (hcsr_status vm) dest mask0 op;
          status = riscv_csr_status_validate (machine_rv64 vm) status0;
          vm1 = vm\<lparr>hcsr_status := status\<rparr>;
          dest1 = (if bit_cut old_status 15 2 = FS_DIRTY then dest0 OR riscv_csr_sd_bit vm1 else dest0);
          vm2 = (if bit_cut status 0 4 AND NOT (bit_cut old_status 0 4) \<noteq> 0
                 then riscv_hart_check_interrupts env vm1 else vm1)
      in (True, vm2, dest1))"

definition riscv_csr_ie :: "csr_env \<Rightarrow> rvvm_hart \<Rightarrow> u64 \<Rightarrow> u64 \<Rightarrow> csr_op \<Rightarrow> bool \<times> rvvm_hart \<times> u64" where
  "riscv_csr_ie env vm dest mask0 op =
     (let (ie, dest') = riscv_csr_helper_masked vm (hcsr_ie vm) dest mask0 op
      in (True, riscv_hart_check_interrupts env (vm\<lparr>hcsr_ie := ie\<rparr>), dest'))"

definition riscv_csr_ip :: "csr_env \<Rightarrow> rvvm_hart \<Rightarrow> u64 \<Rightarrow> u64 \<Rightarrow> csr_op \<Rightarrow> bool \<times> rvvm_hart \<times> u64" where
  "riscv_csr_ip env vm dest mask0 op =
     (let (ip, dest0) = riscv_csr_helper_masked vm (hcsr_ip vm) dest mask0 op;
          vm1 = vm\<lparr>hcsr_ip := ip\<rparr>;
          dest1 = dest0 OR (riscv_interrupts_raised vm1 AND mask0)
      in (True, riscv_hart_check_interrupts env vm1, dest1))"

definition riscv_csr_stimecmp_set :: "csr_env \<Rightarrow> rvvm_hart \<Rightarrow> u64 \<Rightarrow> rvvm_hart" where
  "riscv_csr_stimecmp_set env vm stimecmp =
     (let vm1 = vm\<lparr>hart_stimecmp := stimecmp\<rparr>
      in if rvtimecmp_pending env vm1 then riscv_interrupt vm1 INTERRUPT_STIMER
         else riscv_interrupt_clear vm1 INTERRUPT_STIMER)"

definition riscv_csr_stimecmp :: "csr_env \<Rightarrow> rvvm_hart \<Rightarrow> u64 \<Rightarrow> csr_op \<Rightarrow> bool \<times> rvvm_hart \<times> u64" where
  "riscv_csr_stimecmp env vm dest op =
     (if riscv_csr_sstc_enabled env vm then
        (let (stimecmp, dest') = riscv_csr_helper_l vm (hart_stimecmp vm) dest (- 1) op
         in (True, riscv_csr_stimecmp_set env vm stimecmp, dest'))
      else (False, vm, dest))"

definition riscv_csr_stimecmph :: "csr_env \<Rightarrow> rvvm_hart \<Rightarrow> u64 \<Rightarrow> csr_op \<Rightarrow> bool \<times> rvvm_hart \<times> u64" where
  "riscv_csr_stimecmph env vm dest op =
     (if \<not> rv64 vm \<and> riscv_csr_sstc_enabled env vm then
        (let (ok, stimecmp, dest') = riscv_csr_helper_h vm (hart_stimecmp vm) dest (- 1) op
         in (True, riscv_csr_stimecmp_set env vm stimecmp, dest'))
      else (False, vm, dest))"

definition riscv_csr_satp :: "csr_env \<Rightarrow> rvvm_hart \<Rightarrow> u64 \<Rightarrow> csr_op \<Rightarrow> bool \<times> rvvm_hart \<times> u64" where
  "riscv_csr_satp env vm dest op =
     (let prev_mmu = hart_mmu_mode vm in
      if hcsr_status vm AND CSR_STATUS_TVM \<noteq> 0 then (False, vm, dest)
      else
        (let (vm1, dest') =
           (if rv64 vm then
              (let satp0 = push_bit 60 (ucast (hart_mmu_mode vm)) OR
                           drop_bit MMU_PAGE_SHIFT (hart_root_page_table vm);
                   (satp, d) = riscv_csr_helper vm satp0 dest op;
                   mode = (ucast (bit_cut satp 60 4) :: u8);
                   mode' = (if mode < CSR_SATP_MODE_SV39
                              \<or> mode > CSR_SATP_MODE_SV57
                              \<or> (mode = CSR_SATP_MODE_SV48 \<and> \<not> has_arg_sv48 env)
                              \<or> (mode = CSR_SATP_MODE_SV57 \<and> \<not> has_arg_sv57 env)
                            then CSR_SATP_MODE_PHYS else mode)
               in (vm\<lparr>hart_mmu_mode := mode',
                      hart_root_page_table := push_bit MMU_PAGE_SHIFT (satp AND bit_mask 44)\<rparr>, d))
            else
              (let satp0 = push_bit 31 (ucast (hart_mmu_mode vm)) OR
                           drop_bit MMU_PAGE_SHIFT (hart_root_page_table vm);
                   (satp, d) = riscv_csr_helper vm satp0 dest op
               in (vm\<lparr>hart_mmu_mode := ucast (bit_cut satp 31 1),
                      hart_root_page_table := push_bit MMU_PAGE_SHIFT (satp AND bit_mask 22)\<rparr>, d)))
         in (True,
             if (hart_mmu_mode vm1 \<noteq> 0) \<noteq> (prev_mmu \<noteq> 0) then riscv_tlb_flush vm1 else vm1,
             dest')))"

definition fpu_get_exceptions :: "rvvm_hart \<Rightarrow> u32" where
  "fpu_get_exceptions vm = host_fflags vm"

definition fpu_set_rm :: "rvvm_hart \<Rightarrow> u64 \<Rightarrow> rvvm_hart" where
  "fpu_set_rm vm newrm =
     (if newrm = RM_RNE then vm\<lparr>host_rm := FE_TONEAREST\<rparr>
      else if newrm = RM_RTZ then vm\<lparr>host_rm := FE_TOWARDZERO\<rparr>
      else if newrm = RM_RDN then vm\<lparr>host_rm := FE_DOWNWARD\<rparr>
      else if newrm = RM_RUP then vm\<lparr>host_rm := FE_UPWARD\<rparr>
      else if newrm = RM_RMM then vm\<lparr>host_rm := FE_TONEAREST\<rparr>
      else vm)"

definition riscv_csr_set_fcsr :: "rvvm_hart \<Rightarrow> u64 \<Rightarrow> rvvm_hart" where
  "riscv_csr_set_fcsr vm fcsr =
     (if fcsr \<noteq> hcsr_fcsr vm then
        (let vm1 = (if NOT (bit_cut fcsr 0 5) AND ucast (fpu_get_exceptions vm) \<noteq> 0
                    then vm\<lparr>host_fflags := 0\<rparr> else vm);
             vm2 = (if bit_cut fcsr 5 3 \<noteq> bit_cut (hcsr_fcsr vm1) 5 3
                    then fpu_set_rm vm1 (bit_cut fcsr 5 3) else vm1)
         in vm2\<lparr>hcsr_fcsr := fcsr\<rparr>)
      else vm)"

definition riscv_csr_fflags :: "csr_env \<Rightarrow> rvvm_hart \<Rightarrow> u64 \<Rightarrow> csr_op \<Rightarrow> bool \<times> rvvm_hart \<times> u64" where
  "riscv_csr_fflags env vm dest op =
     (if \<not> fpu_is_enabled env vm then (False, vm, dest)
      else
        (let vm1 = vm\<lparr>hcsr_fcsr := hcsr_fcsr vm OR ucast (fpu_get_exceptions vm)\<rparr>;
             (fcsr, dest') = riscv_csr_helper_masked vm1 (hcsr_fcsr vm1) dest 0x1F op
         in (True, riscv_csr_set_fcsr vm1 fcsr, dest')))"

definition riscv_csr_frm :: "csr_env \<Rightarrow> rvvm_hart \<Rightarrow> u64 \<Rightarrow> csr_op \<Rightarrow> bool \<times> rvvm_hart \<times> u64" where
  "riscv_csr_frm env vm dest op =
     (if \<not> fpu_is_enabled env vm then (False, vm, dest)
      else
        (let fcsr0 = hcsr_fcsr vm;
             (frm, dest') = riscv_csr_helper_masked vm (drop_bit 5 fcsr0) dest 0x7 op;
             fcsr = bit_replace fcsr0 5 3 frm
         in (True, riscv_csr_set_fcsr vm fcsr, dest')))"

definition riscv_csr_fcsr :: "csr_env \<Rightarrow> rvvm_hart \<Rightarrow> u64 \<Rightarrow> csr_op \<Rightarrow> bool \<times> rvvm_hart \<times> u64" where
  "riscv_csr_fcsr env vm dest op =
     (if \<not> fpu_is_enabled env vm then (False, vm, dest)
      else
        (let vm1 = vm\<lparr>hcsr_fcsr := hcsr_fcsr vm OR ucast (fpu_get_exceptions vm)\<rparr>;
             (fcsr, dest') = riscv_csr_helper_masked vm1 (hcsr_fcsr vm1) dest 0xFF op
         in (True, riscv_csr_set_fcsr vm1 fcsr, dest')))"

text \<open>
  The per-privilege direct and masked CSRs: the helper is applied to one entry of an
  array of the CSR bank, and the entry is stored back.
\<close>

definition csr_direct ::
    "rvvm_hart \<Rightarrow> (rvvm_hart \<Rightarrow> u64) \<Rightarrow> (u64 \<Rightarrow> rvvm_hart) \<Rightarrow> u64 \<Rightarrow> csr_op \<Rightarrow> bool \<times> rvvm_hart \<times> u64" where
  "csr_direct vm rd wr dest op =
     (let (csr, dest') = riscv_csr_helper vm (rd vm) dest op in (True, wr csr, dest'))"

definition csr_masked ::
    "rvvm_hart \<Rightarrow> (rvvm_hart \<Rightarrow> u64) \<Rightarrow> (u64 \<Rightarrow> rvvm_hart) \<Rightarrow> u64 \<Rightarrow> u64 \<Rightarrow> csr_op \<Rightarrow> bool \<times> rvvm_hart \<times> u64" where
  "csr_masked vm rd wr dest mask0 op =
     (let (csr, dest') = riscv_csr_helper_masked vm (rd vm) dest mask0 op in (True, wr csr, dest'))"

definition csr_low ::
    "rvvm_hart \<Rightarrow> (rvvm_hart \<Rightarrow> u64) \<Rightarrow> (u64 \<Rightarrow> rvvm_hart) \<Rightarrow> u64 \<Rightarrow> u64 \<Rightarrow> csr_op \<Rightarrow> bool \<times> rvvm_hart \<times> u64" where
  "csr_low vm rd wr dest mask0 op =
     (let (csr, dest') = riscv_csr_helper_l vm (rd vm) dest mask0 op in (True, wr csr, dest'))"

definition csr_high ::
    "rvvm_hart \<Rightarrow> (rvvm_hart \<Rightarrow> u64) \<Rightarrow> (u64 \<Rightarrow> rvvm_hart) \<Rightarrow> u64 \<Rightarrow> u64 \<Rightarrow> csr_op \<Rightarrow> bool \<times> rvvm_hart \<times> u64" where
  "csr_high vm rd wr dest mask0 op =
     (let (ok, csr, dest') = riscv_csr_helper_h vm (rd vm) dest mask0 op in (ok, wr csr, dest'))"

text \<open>
  \<open>riscv_csr_op_internal\<close>, the dispatch on the CSR number; the \<open>case\<close> labels of the
  \<open>switch\<close> are distinct numbers, so their order does not matter. The runs of PMP and
  performance-counter registers are the ranges \<open>0x3A0..0x3A3\<close>, \<open>0x3B0..0x3BF\<close>,
  \<open>0xB03..0xB1F\<close> and \<open>0xB83..0xB9F\<close>.
\<close>

definition riscv_csr_op_internal :: "csr_env \<Rightarrow> rvvm_hart \<Rightarrow> u32 \<Rightarrow> u64 \<Rightarrow> csr_op \<Rightarrow> bool \<times> rvvm_hart \<times> u64" where
  "riscv_csr_op_internal env vm csr_id dest op =
     (if csr_id = CSR_FFLAGS then riscv_csr_fflags env vm dest op
      else if csr_id = CSR_FRM then riscv_csr_frm env vm dest op
      else if csr_id = CSR_FCSR then riscv_csr_fcsr env vm dest op
      else if csr_id = CSR_SEED then riscv_csr_seed env vm dest
      else if csr_id = CSR_CYCLE then riscv_csr_zero vm
      else if csr_id = CSR_CYCLEH then riscv_csr_zero_h vm dest
      else if csr_id = CSR_TIME then riscv_csr_time env vm dest
      else if csr_id = CSR_TIMEH then riscv_csr_timeh env vm dest
      else if csr_id = CSR_INSTRET then riscv_csr_zero vm
      else if csr_id = CSR_INSTRETH then riscv_csr_zero_h vm dest
      else if csr_id = CSR_SSTATUS then riscv_csr_status env vm dest (CSR_SSTATUS_MASK env) op
      else if csr_id = CSR_SIE then riscv_csr_ie env vm dest (CSR_SEIP_MASK env) op
      else if csr_id = CSR_STVEC then
        csr_direct vm (\<lambda>v. hcsr_tvec v PRIVILEGE_SUPERVISOR)
          (\<lambda>c. vm\<lparr>hcsr_tvec := (hcsr_tvec vm)(PRIVILEGE_SUPERVISOR := c)\<rparr>) dest op
      else if csr_id = CSR_SCOUNTEREN then
        csr_masked vm (\<lambda>v. hcsr_counteren v PRIVILEGE_SUPERVISOR)
          (\<lambda>c. vm\<lparr>hcsr_counteren := (hcsr_counteren vm)(PRIVILEGE_SUPERVISOR := c)\<rparr>)
          dest (CSR_COUNTEREN_MASK env) op
      else if csr_id = CSR_SENVCFG then
        csr_low vm (\<lambda>v. hcsr_envcfg v PRIVILEGE_SUPERVISOR)
          (\<lambda>c. vm\<lparr>hcsr_envcfg := (hcsr_envcfg vm)(PRIVILEGE_SUPERVISOR := c)\<rparr>)
          dest (CSR_SENVCFG_MASK env) op
      else if csr_id = CSR_SSCRATCH then
        csr_direct vm (\<lambda>v. hcsr_scratch v PRIVILEGE_SUPERVISOR)
          (\<lambda>c. vm\<lparr>hcsr_scratch := (hcsr_scratch vm)(PRIVILEGE_SUPERVISOR := c)\<rparr>) dest op
      else if csr_id = CSR_SEPC then
        csr_direct vm (\<lambda>v. hcsr_epc v PRIVILEGE_SUPERVISOR)
          (\<lambda>c. vm\<lparr>hcsr_epc := (hcsr_epc vm)(PRIVILEGE_SUPERVISOR := c)\<rparr>) dest op
      else if csr_id = CSR_SCAUSE then
        csr_direct vm (\<lambda>v. hcsr_cause v PRIVILEGE_SUPERVISOR)
          (\<lambda>c. vm\<lparr>hcsr_cause := (hcsr_cause vm)(PRIVILEGE_SUPERVISOR := c)\<rparr>) dest op
      else if csr_id = CSR_STVAL then
        csr_direct vm (\<lambda>v. hcsr_tval v PRIVILEGE_SUPERVISOR)
          (\<lambda>c. vm\<lparr>hcsr_tval := (hcsr_tval vm)(PRIVILEGE_SUPERVISOR := c)\<rparr>) dest op
      else if csr_id = CSR_SIP then riscv_csr_ip env vm dest (CSR_SEIP_MASK env) op
      else if csr_id = CSR_STIMECMP then riscv_csr_stimecmp env vm dest op
      else if csr_id = CSR_STIMECMPH then riscv_csr_stimecmph env vm dest op
      else if csr_id = CSR_SATP then riscv_csr_satp env vm dest op
      else if csr_id = CSR_MVENDORID then riscv_csr_zero vm
      else if csr_id = CSR_MARCHID then riscv_csr_const vm 0x5256564D
      else if csr_id = CSR_MIMPID then riscv_csr_const vm (ucast (rvvm_mimpid env))
      else if csr_id = CSR_MHARTID then riscv_csr_const vm (hcsr_hartid vm)
      else if csr_id = CSR_MSTATUS then riscv_csr_status env vm dest (CSR_MSTATUS_MASK env) op
      else if csr_id = CSR_MSTATUSH then riscv_csr_zero vm
      else if csr_id = CSR_MISA then riscv_csr_misa env vm dest op
      else if csr_id = CSR_MEDELEG then
        csr_masked vm (\<lambda>v. hcsr_edeleg v PRIVILEGE_MACHINE)
          (\<lambda>c. vm\<lparr>hcsr_edeleg := (hcsr_edeleg vm)(PRIVILEGE_MACHINE := c)\<rparr>)
          dest (CSR_MEDELEG_MASK env) op
      else if csr_id = CSR_MIDELEG then
        csr_masked vm (\<lambda>v. hcsr_ideleg v PRIVILEGE_MACHINE)
          (\<lambda>c. vm\<lparr>hcsr_ideleg := (hcsr_ideleg vm)(PRIVILEGE_MACHINE := c)\<rparr>)
          dest (CSR_MIDELEG_MASK env) op
      else if csr_id = CSR_MIE then riscv_csr_ie env vm dest (CSR_MEIP_MASK env) op
      else if csr_id = CSR_MTVEC then
        csr_direct vm (\<lambda>v. hcsr_tvec v PRIVILEGE_MACHINE)
          (\<lambda>c. vm\<lparr>hcsr_tvec := (hcsr_tvec vm)(PRIVILEGE_MACHINE := c)\<rparr>) dest op
      else if csr_id = CSR_MCOUNTEREN then
        csr_masked vm (\<lambda>v. hcsr_counteren v PRIVILEGE_MACHINE)
          (\<lambda>c. vm\<lparr>hcsr_counteren := (hcsr_counteren vm)(PRIVILEGE_MACHINE := c)\<rparr>)
          dest (CSR_COUNTEREN_MASK env) op
      else if csr_id = CSR_MSCRATCH then
        csr_direct vm (\<lambda>v. hcsr_scratch v PRIVILEGE_MACHINE)
          (\<lambda>c. vm\<lparr>hcsr_scratch := (hcsr_scratch vm)(PRIVILEGE_MACHINE := c)\<rparr>) dest op
      else if csr_id = CSR_MEPC then
        csr_direct vm (\<lambda>v. hcsr_epc v PRIVILEGE_MACHINE)
          (\<lambda>c. vm\<lparr>hcsr_epc := (hcsr_epc vm)(PRIVILEGE_MACHINE := c)\<rparr>) dest op
      else if csr_id = CSR_MCAUSE then
        csr_direct vm (\<lambda>v. hcsr_cause v PRIVILEGE_MACHINE)
          (\<lambda>c. vm\<lparr>hcsr_cause := (hcsr_cause vm)(PRIVILEGE_MACHINE := c)\<rparr>) dest op
      else if csr_id = CSR_MTVAL then
        csr_direct vm (\<lambda>v. hcsr_tval v PRIVILEGE_MACHINE)
          (\<lambda>c. vm\<lparr>hcsr_tval := (hcsr_tval vm)(PRIVILEGE_MACHINE := c)\<rparr>) dest op
      else if csr_id = CSR_MIP then riscv_csr_ip env vm dest (CSR_MEIP_MASK env) op
      else if csr_id = CSR_MENVCFG then
        csr_low vm (\<lambda>v. hcsr_envcfg v PRIVILEGE_MACHINE)
          (\<lambda>c. vm\<lparr>hcsr_envcfg := (hcsr_envcfg vm)(PRIVILEGE_MACHINE := c)\<rparr>)
          dest (CSR_MENVCFG_MASK env) op
      else if csr_id = CSR_MENVCFGH then
        csr_high vm (\<lambda>v. hcsr_envcfg v PRIVILEGE_MACHINE)
          (\<lambda>c. vm\<lparr>hcsr_envcfg := (hcsr_envcfg vm)(PRIVILEGE_MACHINE := c)\<rparr>)
          dest (CSR_MENVCFG_MASK env) op
      else if csr_id = CSR_MSECCFG then
        csr_low vm hcsr_mseccfg (\<lambda>c. vm\<lparr>hcsr_mseccfg := c\<rparr>) dest (CSR_MSECCFG_MASK env) op
      else if csr_id = CSR_MSECCFGH then
        csr_high vm hcsr_mseccfg (\<lambda>c. vm\<lparr>hcsr_mseccfg := c\<rparr>) dest (CSR_MSECCFG_MASK env) op
      else if 0x3A0 \<le> csr_id \<and> csr_id \<le> 0x3A3 then riscv_csr_zero vm
      else if 0x3B0 \<le> csr_id \<and> csr_id \<le> 0x3BF then riscv_csr_zero vm
      else if csr_id = CSR_MCYCLE \<or> csr_id = CSR_MINSTRET \<or> (0xB03 \<le> csr_id \<and> csr_id \<le> 0xB1F)
        then riscv_csr_zero vm
      else if csr_id = CSR_MCYCLEH \<or> csr_id = CSR_MINSTRETH \<or> (0xB83 \<le> csr_id \<and> csr_id \<le> 0xB9F)
        then riscv_csr_zero_h vm dest
      else if csr_id = CSR_MCOUNTINHIBIT then riscv_csr_zero vm
      else (False, vm, dest))"

text \<open>
  \<open>riscv_csr_op\<close>. The result is the success flag, the hart afterwards and the value
  left in \<open>*dest\<close>. In 32-bit mode the value is cast to \<open>int32_t\<close> and back, which
  sign-extends it from bit 31.
\<close>

definition int32_cast :: "u64 \<Rightarrow> u64" where
  "int32_cast dest = scast (ucast dest :: u32)"

definition riscv_csr_op :: "csr_env \<Rightarrow> rvvm_hart \<Rightarrow> u32 \<Rightarrow> u64 \<Rightarrow> csr_op \<Rightarrow> bool \<times> rvvm_hart \<times> u64" where
  "riscv_csr_op env vm csr_id dest op =
     (if riscv_csr_readonly csr_id \<and> (op = CSR_SWAP \<or> dest \<noteq> 0) then (False, vm, dest)
      else if riscv_csr_privilege csr_id > hart_priv_mode vm then (False, vm, dest)
      else
        (let (ret, vm', dest') = riscv_csr_op_internal env vm csr_id dest op
         in (ret, vm', if \<not> rv64 vm' then int32_cast dest' else dest')))"

text \<open>
  The value a CSR holds in a hart state: what the dispatch yields for a read of it,
  that is for setting no bits, before the sign extension.
\<close>

definition csr_read_value :: "csr_env \<Rightarrow> rvvm_hart \<Rightarrow> u32 \<Rightarrow> u64" where
  "csr_read_value env vm csr_id = snd (snd (riscv_csr_op_internal env vm csr_id 0 CSR_SETBITS))"

text \<open>
  A 64-bit machine-mode hart with hart id 7 whose \<open>mscratch\<close> holds \<open>0x1234\<close>, and an
  environment in which the optional CSRs are enabled, the masks let every bit
  through and the absent procedures leave the hart alone.
\<close>

definition machine_hart :: rvvm_hart where
  "machine_hart =
     \<lparr> rv64 = True, machine_rv64 = True, hart_priv_mode = PRIVILEGE_MACHINE,
       hart_mmu_mode = CSR_SATP_MODE_PHYS, hart_root_page_table = 0, hart_stimecmp = 0,
       pending_irqs = 0, hart_tlb = [0x1000 \<mapsto> 0x7F0000001000], tlb_flushes = 0,
       host_fflags = 0, host_rm = FE_TONEAREST,
       hcsr_status = 0xA00000000, hcsr_isa = CSR_MISA_RV64, hcsr_ie = 0, hcsr_ip = 0,
       hcsr_fcsr = 0, hcsr_hartid = 7, hcsr_mseccfg = 0,
       hcsr_edeleg = (\<lambda>_. 0)(PRIVILEGE_HYPERVISOR := 0xFFFFFFFF),
       hcsr_ideleg = (\<lambda>_. 0)(PRIVILEGE_HYPERVISOR := 0xFFFFFFFF),
       hcsr_tvec = (\<lambda>_. 0), hcsr_scratch = (\<lambda>_. 0)(PRIVILEGE_MACHINE := 0x1234),
       hcsr_epc = (\<lambda>_. 0), hcsr_cause = (\<lambda>_. 0), hcsr_tval = (\<lambda>_. 0),
       hcsr_counteren = (\<lambda>_. 0), hcsr_envcfg = (\<lambda>_. 0) \<rparr>"

definition open_env :: csr_env where
  "open_env =
     \<lparr> CSR_SSTATUS_MASK = - 1, CSR_MSTATUS_MASK = - 1, CSR_SEIP_MASK = - 1, CSR_MEIP_MASK = - 1,
       CSR_COUNTEREN_MASK = - 1, CSR_SENVCFG_MASK = - 1, CSR_MENVCFG_MASK = - 1,
       CSR_MSECCFG_MASK = - 1, CSR_MEDELEG_MASK = - 1, CSR_MIDELEG_MASK = - 1,
       rvtimer_get = 1000, rvvm_randombytes = 0xBEEF, rvvm_mimpid = 0,
       has_arg_sv48 = False, has_arg_sv57 = False,
       riscv_csr_timer_enabled = (\<lambda>_. True), riscv_csr_seed_enabled = (\<lambda>_. True),
       riscv_csr_sstc_enabled = (\<lambda>_. True), fpu_is_enabled = (\<lambda>_. True),
       riscv_update_xlen = (\<lambda>vm. vm), riscv_hart_check_interrupts = (\<lambda>vm. vm) \<rparr>"

text \<open>The same hart in user mode, and in supervisor mode with \<open>STATUS.TVM\<close> set.\<close>

definition user_hart :: rvvm_hart where
  "user_hart = machine_hart\<lparr>hart_priv_mode := PRIVILEGE_USER\<rparr>"

definition tvm_hart :: rvvm_hart where
  "tvm_hart = machine_hart\<lparr>hart_priv_mode := PRIVILEGE_SUPERVISOR,
                            hcsr_status := 0xA00000000 OR CSR_STATUS_TVM\<rparr>"

section \<open>main.c: the command line\<close>

text \<open>
  \<open>vm_args_t\<close>; a \<open>const char*\<close> field is \<open>None\<close> when null. The log level is the one
  \<open>rvvm_set_loglevel\<close> sets. Diagnostics printed on the way are not modelled.
\<close>

datatype loglevel = LOG_WARN | LOG_INFO

record vm_args =
  bootrom :: "string option"
  kernel :: "string option"
  dtb :: "string option"
  image :: "string option"
  mem :: u64
  smp :: u32
  args_rv64 :: bool
  sbi_align_fix :: bool

text \<open>
  What main.c takes from the C library and from the rest of the program, as
  parameters: \<open>atoi\<close>; the byte that precedes in memory an empty option value that
  is not part of its argument, which the \<open>mem\<close> option reads as
  \<open>arg_val[strlen(arg_val)-1]\<close> (after \<open>-mem=\<close> that byte is the \<open>=\<close>); whether
  \<open>rvvm_create_machine\<close> yields a machine; whether \<open>load_file_to_ram\<close> succeeds for
  the boot ROM and for the device tree; and whether \<open>rvvm_run_eventloop\<close> returns,
  which it does when the machine shuts down.
\<close>

record host =
  atoi :: "string \<Rightarrow> int"
  stray_byte :: char
  rvvm_create_machine :: "vm_args \<Rightarrow> bool"
  load_bootrom :: "vm_args \<Rightarrow> bool"
  load_dtb :: "vm_args \<Rightarrow> bool"
  machine_shuts_down :: "vm_args \<Rightarrow> bool"

text \<open>
  \<open>get_arg\<close> reads the option at the head of \<open>argv\<close>, which is not empty: the result
  is the number of elements consumed, the option name (a pointer into the argument,
  so that a value given with \<open>=\<close> is still attached) and the value.
\<close>

definition get_arg :: "string list \<Rightarrow> nat \<times> string \<times> string" where
  "get_arg argv =
     (let a0 = hd argv in
      if take 1 a0 = ''-'' then
        (let offset = (if take 1 (drop 1 a0) = ''-'' then 2 else 1);
             arg_name = drop offset a0
         in if CHR ''='' \<in> set arg_name
            then (1, arg_name, drop 1 (dropWhile (\<lambda>c. c \<noteq> CHR ''='') arg_name))
            else if tl argv = [] \<or> take 1 (hd (tl argv)) = ''-''
            then (1, arg_name, '''')
            else (2, arg_name, hd (tl argv)))
      else (1, ''bootrom'', a0))"

definition mem_suffix_shift :: "char \<Rightarrow> nat" where
  "mem_suffix_shift suffix =
     (if suffix = CHR ''k'' then 10
      else if suffix = CHR ''K'' then 10
      else if suffix = CHR ''M'' then 20
      else if suffix = CHR ''G'' then 30
      else 0)"

text \<open>
  \<open>cmp_arg\<close> compares up to the end of the argument or its first \<open>=\<close>; the name ends
  with a NUL, which no character of the argument equals.
\<close>

fun cmp_arg :: "string \<Rightarrow> string \<Rightarrow> bool" where
  "cmp_arg [] name = True"
| "cmp_arg (c # cs) name =
     (if c = CHR ''='' then True
      else (case name of
              [] \<Rightarrow> False
            | n # ns \<Rightarrow> if c \<noteq> n then False else cmp_arg cs ns))"

text \<open>
  The loop of \<open>parse_args\<close> over the arguments that remain. The result is the success
  flag, the arguments record and the log level.
\<close>

function parse_args_loop :: "host \<Rightarrow> string list \<Rightarrow> vm_args \<times> loglevel \<Rightarrow> bool \<times> vm_args \<times> loglevel" where
  "parse_args_loop h argv (args, lvl) =
     (if argv = [] then (True, args, lvl)
      else
        (let (n, arg_name, arg_val) = get_arg argv;
             rest = drop n argv
         in if cmp_arg arg_name ''dtb'' then parse_args_loop h rest (args\<lparr>dtb := Some arg_val\<rparr>, lvl)
            else if cmp_arg arg_name ''image'' then parse_args_loop h rest (args\<lparr>image := Some arg_val\<rparr>, lvl)
            else if cmp_arg arg_name ''bootrom'' then parse_args_loop h rest (args\<lparr>bootrom := Some arg_val\<rparr>, lvl)
            else if cmp_arg arg_name ''kernel'' then parse_args_loop h rest (args\<lparr>kernel := Some arg_val\<rparr>, lvl)
            else if cmp_arg arg_name ''mem'' then
              parse_args_loop h rest
                (if arg_name \<noteq> [] then
                   args\<lparr>mem := push_bit
                            (mem_suffix_shift
                               (if arg_val \<noteq> [] then last arg_val
                                else if CHR ''='' \<in> set arg_name then CHR ''=''
                                else stray_byte h))
                            (word_of_int (atoi h arg_val))\<rparr>
                 else args, lvl)
            else if cmp_arg arg_name ''smp'' then
              (if (word_of_int (atoi h arg_val) :: u32) > 1024
               then (False, args\<lparr>smp := word_of_int (atoi h arg_val)\<rparr>, lvl)
               else parse_args_loop h rest (args\<lparr>smp := word_of_int (atoi h arg_val)\<rparr>, lvl))
            else if cmp_arg arg_name ''rv64'' then parse_args_loop h rest (args\<lparr>args_rv64 := True\<rparr>, lvl)
            else if cmp_arg arg_name ''verbose'' then parse_args_loop h rest (args, LOG_INFO)
            else if cmp_arg arg_name ''help'' \<or> cmp_arg arg_name ''h'' \<or> cmp_arg arg_name ''H''
              then (False, args, lvl)
            else (False, args, lvl)))"
  by pat_completeness auto
termination
  by (relation "measure (\<lambda>(h, argv, s). length argv)")
     (auto simp: get_arg_def Let_def split: if_splits)

declare parse_args_loop.simps [simp del]

text \<open>
  \<open>parse_args\<close>: the defaults are one core and 256M of memory, and the arguments
  after the program name are parsed.
\<close>

definition parse_args :: "host \<Rightarrow> string list \<Rightarrow> vm_args \<times> loglevel \<Rightarrow> bool \<times> vm_args \<times> loglevel" where
  "parse_args h argv s =
     parse_args_loop h (tl argv) ((fst s)\<lparr>smp := 1, mem := push_bit 20 256\<rparr>, snd s)"

text \<open>
  \<open>rvvm_run_with_args\<close>: the exit status it returns, or \<open>None\<close> when the event loop
  never returns. The devices it attaches have no part in the status.
\<close>

definition rvvm_run_with_args :: "host \<Rightarrow> vm_args \<Rightarrow> int option" where
  "rvvm_run_with_args h args =
     (if \<not> rvvm_create_machine h args then Some 1
      else if \<not> load_bootrom h args then Some 1
      else if dtb args \<noteq> None \<and> \<not> load_dtb h args then Some 1
      else if machine_shuts_down h args then Some 0
      else None)"

text \<open>\<open>main\<close>: the exit code of the process, or \<open>None\<close> when it never exits.\<close>

definition zero_args :: vm_args where
  "zero_args = \<lparr> bootrom = None, kernel = None, dtb = None, image = None, mem = 0, smp = 0,
                 args_rv64 = False, sbi_align_fix = False \<rparr>"

definition rvvm_main :: "host \<Rightarrow> string list \<Rightarrow> int option" where
  "rvvm_main h argv =
     (let (ok, args, lvl) = parse_args h argv (zero_args, LOG_WARN) in
      if \<not> ok then Some 0
      else if bootrom args = None then Some 0
      else (case rvvm_run_with_args h args of
              None \<Rightarrow> None
            | Some status \<Rightarrow> Some 0))"

text \<open>
  The option names \<open>parse_args\<close> compares with, and the name an argument that begins
  with a dash presents to it.
\<close>

definition recognised_options :: "string list" where
  "recognised_options =
     [''dtb'', ''image'', ''bootrom'', ''kernel'', ''mem'', ''smp'', ''rv64'', ''verbose'',
      ''help'', ''h'', ''H'']"

definition is_option :: "string \<Rightarrow> bool" where
  "is_option a = (take 1 a = ''-'')"

definition option_name :: "string \<Rightarrow> string" where
  "option_name a = drop (if take 1 (drop 1 a) = ''-'' then 2 else 1) a"

definition unknown_option :: "string \<Rightarrow> bool" where
  "unknown_option a = (is_option a \<and> list_all (\<lambda>name. \<not> cmp_arg (option_name a) name) recognised_options)"

text \<open>
  A host on which no machine can be created, and one on which everything succeeds
  and the machine shuts down.
\<close>

definition atoi_digits :: "string \<Rightarrow> int" where
  "atoi_digits s =
     foldl (\<lambda>acc c. 10 * acc + (int (of_char c) - 48)) 0
       (takeWhile (\<lambda>c. (48::nat) \<le> of_char c \<and> (of_char c :: nat) \<le> 57) s)"

definition failing_host :: host where
  "failing_host =
     \<lparr> atoi = atoi_digits, stray_byte = CHR 0x00,
       rvvm_create_machine = (\<lambda>_. False), load_bootrom = (\<lambda>_. False), load_dtb = (\<lambda>_. False),
       machine_shuts_down = (\<lambda>_. True) \<rparr>"

definition working_host :: host where
  "working_host =
     \<lparr> atoi = atoi_digits, stray_byte = CHR 0x00,
       rvvm_create_machine = (\<lambda>_. True), load_bootrom = (\<lambda>_. True), load_dtb = (\<lambda>_. True),
       machine_shuts_down = (\<lambda>_. True) \<rparr>"

section \<open>Properties of the RV32 trap path\<close>

lemma trap_priv_step:
  "priv > priv_mode vm \<Longrightarrow> csr_edeleg vm priv AND shl_one wide cause \<noteq> 0 \<Longrightarrow>
   riscv32_trap_priv wide vm cause priv = riscv32_trap_priv wide vm cause (priv - 1)"
  by (subst riscv32_trap_priv.simps) simp

lemma trap_priv_done:
  "\<not> (priv > priv_mode vm \<and> csr_edeleg vm priv AND shl_one wide cause \<noteq> 0) \<Longrightarrow>
   riscv32_trap_priv wide vm cause priv = priv"
  by (subst riscv32_trap_priv.simps) auto

lemma u8_pred_le: "(pm::u8) < priv \<Longrightarrow> pm \<le> priv - 1"
  by unat_arith

lemma u8_pred_le2: "(pm::u8) < priv \<Longrightarrow> q \<le> priv \<Longrightarrow> q \<noteq> priv \<Longrightarrow> q \<le> priv - 1"
  by unat_arith

lemma u8_pred_le3: "(pm::u8) < priv \<Longrightarrow> priv - 1 \<le> priv"
  by unat_arith

lemma trap_priv_range:
  "priv_mode vm \<le> priv \<Longrightarrow>
   priv_mode vm \<le> riscv32_trap_priv wide vm cause priv \<and> riscv32_trap_priv wide vm cause priv \<le> priv"
proof (induction wide vm cause priv rule: riscv32_trap_priv.induct)
  case (1 wide vm cause priv)
  show ?case
  proof (cases "priv > priv_mode vm \<and> csr_edeleg vm priv AND shl_one wide cause \<noteq> 0")
    case True
    then have "priv_mode vm \<le> riscv32_trap_priv wide vm cause (priv - 1) \<and>
               riscv32_trap_priv wide vm cause (priv - 1) \<le> priv - 1"
      using "1.IH" u8_pred_le by blast
    moreover have "priv - 1 \<le> priv" using True u8_pred_le3 by blast
    ultimately show ?thesis using True by (auto simp: trap_priv_step intro: order_trans)
  next
    case False
    then show ?thesis using "1.prems" by (simp add: trap_priv_done)
  qed
qed

lemma trap_priv_above:
  "riscv32_trap_priv wide vm cause priv < q \<Longrightarrow> q \<le> priv \<Longrightarrow>
   csr_edeleg vm q AND shl_one wide cause \<noteq> 0"
proof (induction wide vm cause priv rule: riscv32_trap_priv.induct)
  case (1 wide vm cause priv)
  show ?case
  proof (cases "priv > priv_mode vm \<and> csr_edeleg vm priv AND shl_one wide cause \<noteq> 0")
    case True
    note step = True
    show ?thesis
    proof (cases "q = priv")
      case True
      then show ?thesis using step by simp
    next
      case False
      then have "q \<le> priv - 1" using "1.prems"(2) step u8_pred_le2 by blast
      moreover have "riscv32_trap_priv wide vm cause (priv - 1) < q"
        using "1.prems"(1) step by (simp add: trap_priv_step)
      ultimately show ?thesis using "1.IH" step by blast
    qed
  next
    case False
    then have "riscv32_trap_priv wide vm cause priv = priv"
      by (rule trap_priv_done)
    then show ?thesis using "1.prems" by simp
  qed
qed

lemma trap_priv_stop:
  "priv_mode vm < riscv32_trap_priv wide vm cause priv \<Longrightarrow>
   csr_edeleg vm (riscv32_trap_priv wide vm cause priv) AND shl_one wide cause = 0"
proof (induction wide vm cause priv rule: riscv32_trap_priv.induct)
  case (1 wide vm cause priv)
  show ?case
  proof (cases "priv > priv_mode vm \<and> csr_edeleg vm priv AND shl_one wide cause \<noteq> 0")
    case True
    then show ?thesis using "1.IH" "1.prems" by (simp add: trap_priv_step)
  next
    case False
    then have eq: "riscv32_trap_priv wide vm cause priv = priv"
      by (rule trap_priv_done)
    then show ?thesis using "1.prems" False by auto
  qed
qed

lemma u8_le_3_cases: "(q::u8) \<le> 3 \<Longrightarrow> q = 0 \<or> q = 1 \<or> q = 2 \<or> q = 3"
  by unat_arith

lemma set_privilege_levels: "set privilege_levels = {q. q \<le> PRIVILEGE_MACHINE}"
proof -
  have "q \<in> {0, 1, 2, 3}" if "q \<le> 3" for q :: u8
    using u8_le_3_cases[OF that] by auto
  then show ?thesis
    unfolding privilege_levels_def PRIVILEGE_USER_def PRIVILEGE_SUPERVISOR_def
      PRIVILEGE_HYPERVISOR_def PRIVILEGE_MACHINE_def
    by auto
qed

lemma delegated_above_iff:
  "delegated_above deleg p = (\<forall>q. p < q \<and> q \<le> PRIVILEGE_MACHINE \<longrightarrow> deleg q)"
  unfolding delegated_above_def list_all_iff set_privilege_levels by blast

lemma lowest_delegated_iff:
  "lowest_delegated deleg m p =
     (m \<le> p \<and> p \<le> PRIVILEGE_MACHINE \<and> delegated_above deleg p \<and>
      (\<forall>p'. m \<le> p' \<and> p' \<le> PRIVILEGE_MACHINE \<and> delegated_above deleg p' \<longrightarrow> p \<le> p'))"
  unfolding lowest_delegated_def list_all_iff set_privilege_levels by blast

lemma trap_priv_lowest:
  assumes m: "priv_mode vm \<le> PRIVILEGE_MACHINE"
  shows "lowest_delegated (\<lambda>q. csr_edeleg vm q AND shl_one wide cause \<noteq> 0) (priv_mode vm)
           (riscv32_trap_priv wide vm cause PRIVILEGE_MACHINE)"
proof -
  let ?T = "riscv32_trap_priv wide vm cause PRIVILEGE_MACHINE"
  let ?d = "\<lambda>q. csr_edeleg vm q AND shl_one wide cause \<noteq> 0"
  have r: "priv_mode vm \<le> ?T" "?T \<le> PRIVILEGE_MACHINE"
    using trap_priv_range[OF m] by auto
  have a: "delegated_above ?d ?T"
    unfolding delegated_above_iff using trap_priv_above by blast
  have l: "?T \<le> p'" if p: "priv_mode vm \<le> p'" "delegated_above ?d p'" for p'
  proof (rule ccontr)
    assume "\<not> ?T \<le> p'"
    then have lt: "p' < ?T" by simp
    then have "priv_mode vm < ?T" using p(1) by simp
    then have "\<not> ?d ?T" using trap_priv_stop by blast
    moreover have "?d ?T" using p(2) lt r(2) unfolding delegated_above_iff by blast
    ultimately show False by simp
  qed
  show ?thesis unfolding lowest_delegated_iff using r a l by blast
qed

lemma and_shl_one_bit:
  "cause < 32 \<Longrightarrow> (w AND shl_one wide cause \<noteq> 0) = bit (w::u32) (unat cause)"
  by (simp add: shl_one_def and_exp_eq_0_iff_not_bit)

lemma priv_mode_riscv32_trap:
  "priv_mode (riscv32_trap wide vm cause tval) = riscv32_trap_priv wide vm cause PRIVILEGE_MACHINE"
  by (simp add: riscv32_trap_def Let_def riscv32_break_def)

















lemmas priv_defs = PRIVILEGE_USER_def PRIVILEGE_SUPERVISOR_def PRIVILEGE_HYPERVISOR_def PRIVILEGE_MACHINE_def

lemma riscv32_trap_fields:
  "csr_epc (riscv32_trap wide vm cause tval) (riscv32_trap_priv wide vm cause PRIVILEGE_MACHINE) = registers vm REGISTER_PC"
  "csr_cause (riscv32_trap wide vm cause tval) (riscv32_trap_priv wide vm cause PRIVILEGE_MACHINE) = cause"
  "csr_tval (riscv32_trap wide vm cause tval) (riscv32_trap_priv wide vm cause PRIVILEGE_MACHINE) = tval"
  "wait_event (riscv32_trap wide vm cause tval) = 0"
  by (simp_all add: riscv32_trap_def Let_def riscv32_break_def riscv32i_read_register_u_def)



lemma trap_priv_ecall_vm:
  "riscv32_trap_priv wide ecall_vm 8 PRIVILEGE_MACHINE = PRIVILEGE_SUPERVISOR"
  by (simp add: riscv32_trap_priv.simps ecall_vm_def riscv32_create_vm_def priv_defs shl_one_def)



text \<open>
  Claim C3, as amended. For an exception, whose cause index is below 32, the target
  level of \<open>trap()\<close> is the lowest level \<open>p\<close> between the current level and MACHINE such
  that bit \<open>cause\<close> of \<open>edeleg[q]\<close> is set for every level \<open>q\<close> above \<open>p\<close>.
\<close>

theorem riscv32_trap_target_edeleg:
  assumes "priv_mode vm \<le> PRIVILEGE_MACHINE" and "cause < 32"
  shows "lowest_delegated (edeleg_bit_set vm (unat cause)) (priv_mode vm)
           (priv_mode (riscv32_trap wide vm cause tval))"
proof -
  have b: "edeleg_bit_set vm (unat cause) = (\<lambda>q. csr_edeleg vm q AND shl_one wide cause \<noteq> 0)"
    by (rule ext) (simp add: edeleg_bit_set_def and_shl_one_bit[OF assms(2)])
  show ?thesis
    using trap_priv_lowest[OF assms(1), of wide cause]
    by (simp add: priv_mode_riscv32_trap b)
qed

theorem riscv32_trap_target_edeleg_witness:
  "priv_mode ecall_vm \<le> PRIVILEGE_MACHINE \<and> (8::u32) < 32 \<and>
   priv_mode (riscv32_trap shl_count_masked ecall_vm 8 0) = PRIVILEGE_SUPERVISOR \<and>
   lowest_delegated (edeleg_bit_set ecall_vm 8) PRIVILEGE_USER PRIVILEGE_SUPERVISOR"
proof -
  have h: "priv_mode ecall_vm \<le> PRIVILEGE_MACHINE"
    by (simp add: ecall_vm_def priv_defs)
  have t: "priv_mode (riscv32_trap shl_count_masked ecall_vm 8 0) = PRIVILEGE_SUPERVISOR"
    by (simp add: priv_mode_riscv32_trap trap_priv_ecall_vm)
  have m: "priv_mode ecall_vm = PRIVILEGE_USER" by (simp add: ecall_vm_def)
  show ?thesis
    using riscv32_trap_target_edeleg[where vm = ecall_vm and cause = 8 and wide = shl_count_masked and tval = 0] h
    unfolding t m by simp
qed

text \<open>
  With every exception delegation word clear, the delegation loop stops at MACHINE
  whatever mask the shift yields, so this hart takes every interrupt at MACHINE on
  every host.
\<close>

lemma interrupt_ideleg_only_vm:
  "priv_mode (riscv32_interrupt wide ideleg_only_vm cause) = PRIVILEGE_MACHINE"
  by (simp add: riscv32_interrupt_def priv_mode_riscv32_trap riscv32_trap_priv.simps
      ideleg_only_vm_def riscv32_create_vm_def priv_defs)

text \<open>
  Claim C3 as stated fails: with every interrupt delegation word set and every
  exception delegation word clear, the rule with \<open>ideleg\<close> sends the machine timer
  interrupt (index 7) of a user-mode hart down to USER, while \<open>riscv32_interrupt\<close>
  delivers it at MACHINE.
\<close>

theorem riscv32_interrupt_ignores_ideleg:
  "lowest_delegated (ideleg_bit_set ideleg_only_vm 7) (priv_mode ideleg_only_vm) PRIVILEGE_USER \<and>
   priv_mode (riscv32_interrupt shl_count_masked ideleg_only_vm 7) = PRIVILEGE_MACHINE \<and>
   \<not> lowest_delegated (ideleg_bit_set ideleg_only_vm 7) (priv_mode ideleg_only_vm)
        (priv_mode (riscv32_interrupt shl_count_masked ideleg_only_vm 7))"
proof -
  have b: "ideleg_bit_set ideleg_only_vm 7 q" for q
    by (simp add: ideleg_bit_set_def ideleg_only_vm_def)
  have m: "priv_mode ideleg_only_vm = PRIVILEGE_USER" by (simp add: ideleg_only_vm_def)
  show ?thesis unfolding interrupt_ideleg_only_vm m
    by (simp add: lowest_delegated_def delegated_above_def privilege_levels_def b priv_defs)
qed

lemma registers_run_vector:
  "registers (riscv32_run_vector vm) REGISTER_PC =
     (if csr_cause vm (priv_mode vm) AND INTERRUPT_MASK \<noteq> 0 \<and> csr_tvec vm (priv_mode vm) AND 1 \<noteq> 0
      then (csr_tvec vm (priv_mode vm) AND NOT 3) + push_bit 2 (csr_cause vm (priv_mode vm))
      else csr_tvec vm (priv_mode vm) AND NOT 3)"
  by (simp add: riscv32_run_vector_def riscv32i_write_register_u_def REGISTER_PC_def REGISTER_ZERO_def)

lemma riscv32_interrupt_machine:
  assumes "priv_mode (riscv32_interrupt wide vm 7) = PRIVILEGE_MACHINE"
  shows "csr_cause (riscv32_interrupt wide vm 7) PRIVILEGE_MACHINE = 0x80000007"
    and "csr_tvec (riscv32_interrupt wide vm 7) = csr_tvec vm"
proof -
  have T: "riscv32_trap_priv wide vm (INTERRUPT_MASK OR 7) PRIVILEGE_MACHINE = PRIVILEGE_MACHINE"
    using assms by (simp add: riscv32_interrupt_def priv_mode_riscv32_trap)
  have "csr_cause (riscv32_trap wide vm (INTERRUPT_MASK OR 7) 0) PRIVILEGE_MACHINE = INTERRUPT_MASK OR 7"
    using riscv32_trap_fields(2)[of wide vm "INTERRUPT_MASK OR 7" 0] unfolding T .
  then show "csr_cause (riscv32_interrupt wide vm 7) PRIVILEGE_MACHINE = 0x80000007"
    by (simp add: riscv32_interrupt_def INTERRUPT_MASK_def)
  show "csr_tvec (riscv32_interrupt wide vm 7) = csr_tvec vm"
    by (simp add: riscv32_interrupt_def riscv32_trap_def Let_def riscv32_break_def)
qed

text \<open>
  Claim C4. When the hot loop of an iteration of \<open>run()\<close> returns in state \<open>vm1\<close>, the
  iteration ends with the PC at \<open>(tvec[T] & ~3) + (cause[T] << 2)\<close> if the recorded
  cause has the interrupt bit and bit 0 of \<open>tvec[T]\<close> is set, and at \<open>tvec[T] & ~3\<close>
  otherwise, \<open>T\<close> being the current privilege. With \<open>mtvec = 0x1000 | 1\<close>, a machine
  timer interrupt (cause 7) delivered at machine level records \<open>mcause = 0x80000007\<close>
  and the PC becomes \<open>0x101C\<close>.
\<close>

theorem riscv32_run_sets_pc:
  "(riscv32_run_till_event env (vm\<lparr>wait_event := 1\<rparr>) = Some vm1 \<longrightarrow>
      riscv32_run_iteration env vm = Some (riscv32_run_vector vm1) \<and>
      registers (riscv32_run_vector vm1) REGISTER_PC =
        (if csr_cause vm1 (priv_mode vm1) AND INTERRUPT_MASK \<noteq> 0 \<and> csr_tvec vm1 (priv_mode vm1) AND 1 \<noteq> 0
         then (csr_tvec vm1 (priv_mode vm1) AND NOT 3) + push_bit 2 (csr_cause vm1 (priv_mode vm1))
         else csr_tvec vm1 (priv_mode vm1) AND NOT 3)) \<and>
   (csr_tvec vm PRIVILEGE_MACHINE = 0x1001 \<and>
    priv_mode (riscv32_interrupt wide vm 7) = PRIVILEGE_MACHINE \<longrightarrow>
      csr_cause (riscv32_interrupt wide vm 7) PRIVILEGE_MACHINE = 0x80000007 \<and>
      registers (riscv32_run_vector (riscv32_interrupt wide vm 7)) REGISTER_PC = 0x101C)"
proof (intro conjI impI)
  assume "riscv32_run_till_event env (vm\<lparr>wait_event := 1\<rparr>) = Some vm1"
  then show "riscv32_run_iteration env vm = Some (riscv32_run_vector vm1)"
    by (simp add: riscv32_run_iteration_def)
next
  show "registers (riscv32_run_vector vm1) REGISTER_PC =
        (if csr_cause vm1 (priv_mode vm1) AND INTERRUPT_MASK \<noteq> 0 \<and> csr_tvec vm1 (priv_mode vm1) AND 1 \<noteq> 0
         then (csr_tvec vm1 (priv_mode vm1) AND NOT 3) + push_bit 2 (csr_cause vm1 (priv_mode vm1))
         else csr_tvec vm1 (priv_mode vm1) AND NOT 3)"
    by (rule registers_run_vector)
next
  assume a: "csr_tvec vm PRIVILEGE_MACHINE = 0x1001 \<and>
    priv_mode (riscv32_interrupt wide vm 7) = PRIVILEGE_MACHINE"
  then show "csr_cause (riscv32_interrupt wide vm 7) PRIVILEGE_MACHINE = 0x80000007"
    by (simp add: riscv32_interrupt_machine)
  show "registers (riscv32_run_vector (riscv32_interrupt wide vm 7)) REGISTER_PC = 0x101C"
    using a by (simp add: registers_run_vector riscv32_interrupt_machine INTERRUPT_MASK_def)
qed

lemma run_till_event_faulting:
  "riscv32_run_till_event faulting_env (vectored_vm\<lparr>wait_event := 1\<rparr>)
     = Some (riscv32_trap shl_count_masked (vectored_vm\<lparr>wait_event := 1\<rparr>) 1 0x80000000)"
  by (simp add: riscv32_run_till_event.simps riscv32_hot_step_def faulting_env_def
      riscv32i_write_register_u_def REGISTER_ZERO_def vectored_vm_def riscv32_create_vm_def
      riscv32_trap_fields REGISTER_PC_def)

theorem riscv32_run_sets_pc_witness:
  "riscv32_run_till_event faulting_env (vectored_vm\<lparr>wait_event := 1\<rparr>)
     = Some (riscv32_trap shl_count_masked (vectored_vm\<lparr>wait_event := 1\<rparr>) 1 0x80000000) \<and>
   registers (riscv32_run_vector (riscv32_trap shl_count_masked (vectored_vm\<lparr>wait_event := 1\<rparr>) 1 0x80000000))
     REGISTER_PC = 0x1000 \<and>
   csr_tvec vectored_vm PRIVILEGE_MACHINE = 0x1001 \<and>
   priv_mode (riscv32_interrupt shl_count_masked vectored_vm 7) = PRIVILEGE_MACHINE \<and>
   csr_cause (riscv32_interrupt shl_count_masked vectored_vm 7) PRIVILEGE_MACHINE = 0x80000007 \<and>
   registers (riscv32_run_vector (riscv32_interrupt shl_count_masked vectored_vm 7)) REGISTER_PC = 0x101C"
proof -
  have p: "priv_mode (riscv32_interrupt shl_count_masked vectored_vm 7) = PRIVILEGE_MACHINE"
    by (simp add: riscv32_interrupt_def priv_mode_riscv32_trap riscv32_trap_priv.simps
        vectored_vm_def riscv32_create_vm_def)
  have v: "csr_tvec vectored_vm PRIVILEGE_MACHINE = 0x1001"
    by (simp add: vectored_vm_def)
  let ?vm1 = "riscv32_trap shl_count_masked (vectored_vm\<lparr>wait_event := 1\<rparr>) 1 0x80000000"
  have q: "priv_mode ?vm1 = PRIVILEGE_MACHINE"
    by (simp add: priv_mode_riscv32_trap riscv32_trap_priv.simps vectored_vm_def riscv32_create_vm_def)
  have c: "csr_cause ?vm1 PRIVILEGE_MACHINE = 1" "csr_tvec ?vm1 PRIVILEGE_MACHINE = 0x1001"
    using riscv32_trap_fields(2)[of shl_count_masked "vectored_vm\<lparr>wait_event := 1\<rparr>" 1 "0x80000000"] q
    by (simp_all add: priv_mode_riscv32_trap riscv32_trap_def Let_def riscv32_break_def vectored_vm_def)
  show ?thesis
    using riscv32_run_sets_pc[of faulting_env vectored_vm ?vm1 shl_count_masked]
      run_till_event_faulting p v
    by (simp add: q c INTERRUPT_MASK_def)
qed

lemma registers_riscv32_trap: "registers (riscv32_trap wide vm cause tval) = registers vm"
  by (simp add: riscv32_trap_def Let_def riscv32_break_def)

lemma zero_apply_effect:
  "registers vm REGISTER_ZERO = 0 \<Longrightarrow> registers (apply_effect env vm e) REGISTER_ZERO = 0"
  by (cases e)
     (simp_all add: riscv32i_write_register_u_def registers_riscv32_trap REGISTER_ZERO_def REGISTER_PC_def)

lemma zero_apply_effects:
  "registers vm REGISTER_ZERO = 0 \<Longrightarrow> registers (apply_effects env vm es) REGISTER_ZERO = 0"
  by (induction es arbitrary: vm) (simp_all add: zero_apply_effect)

lemma zero_exec_instruction:
  "registers vm REGISTER_ZERO = 0 \<Longrightarrow>
   registers (riscv32_exec_instruction env vm instruction) REGISTER_ZERO = 0"
  using zero_apply_effects[of vm env]
  by (simp add: riscv32_exec_instruction_def Let_def REGISTER_ZERO_def REGISTER_PC_def)

lemma zero_hot_step:
  "registers vm REGISTER_ZERO = 0 \<Longrightarrow> registers (riscv32_hot_step env vm) REGISTER_ZERO = 0"
  by (auto simp: riscv32_hot_step_def riscv32i_write_register_u_def zero_exec_instruction
      registers_riscv32_trap split: option.splits sum.splits)

lemma zero_hot_steps:
  "registers vm REGISTER_ZERO = 0 \<Longrightarrow> registers (riscv32_hot_steps env n vm) REGISTER_ZERO = 0"
  by (induction n arbitrary: vm) (simp_all add: zero_hot_step)

lemma run_till_event_steps:
  assumes "riscv32_run_till_event env vm = Some vm'"
  shows "\<exists>n. vm' = riscv32_hot_steps env n vm"
proof (rule riscv32_run_till_event.raw_induct[where P = "\<lambda>e v r. \<exists>n. r = riscv32_hot_steps e n v", OF _ assms])
  fix f :: "riscv32_env \<Rightarrow> riscv32_vm_state \<Rightarrow> riscv32_vm_state option" and e v r
  assume IH: "\<And>e v r. f e v = Some r \<Longrightarrow> \<exists>n. r = riscv32_hot_steps e n v"
    and eq: "(if wait_event v \<noteq> 0 then f e (riscv32_hot_step e v) else Some v) = Some r"
  show "\<exists>n. r = riscv32_hot_steps e n v"
  proof (cases "wait_event v \<noteq> 0")
    case True
    then have "f e (riscv32_hot_step e v) = Some r" using eq by simp
    then obtain n where "r = riscv32_hot_steps e n (riscv32_hot_step e v)"
      using IH by blast
    then have "r = riscv32_hot_steps e (Suc n) v" using True by simp
    then show ?thesis by blast
  next
    case False
    then have "r = riscv32_hot_steps e 0 v" using eq by simp
    then show ?thesis by blast
  qed
qed

text \<open>
  Claim C8. With the register file of the spec (writes to register 0 are discarded at
  the boundary), a hart whose register 0 holds zero reads zero from it immediately
  after any instruction has executed, after any number of passes of the hot loop, and
  when the hot loop returns.
\<close>

theorem riscv32_register_zero_reads_zero:
  assumes "registers vm REGISTER_ZERO = 0"
  shows "riscv32i_read_register_u (riscv32_exec_instruction env vm instruction) REGISTER_ZERO = 0 \<and>
         riscv32i_read_register_u (riscv32_hot_steps env n vm) REGISTER_ZERO = 0 \<and>
         (riscv32_run_till_event env vm = Some vm' \<longrightarrow> riscv32i_read_register_u vm' REGISTER_ZERO = 0)"
  using assms run_till_event_steps[of env vm vm']
  by (auto simp: riscv32i_read_register_u_def zero_exec_instruction zero_hot_steps)

theorem riscv32_register_zero_reads_zero_witness:
  "registers (riscv32_create_vm 0x80000000) REGISTER_ZERO = 0 \<and>
   riscv32i_read_register_u
     (riscv32_exec_instruction x0_writer_env (riscv32_create_vm 0x80000000) 0x00100013) REGISTER_ZERO = 0 \<and>
   riscv32i_read_register_u
     (riscv32_hot_steps x0_writer_env 3 ((riscv32_create_vm 0x80000000)\<lparr>wait_event := 1\<rparr>)) REGISTER_ZERO = 0"
proof -
  have h: "registers (riscv32_create_vm 0x80000000) REGISTER_ZERO = 0"
    by (simp add: riscv32_create_vm_def REGISTER_ZERO_def REGISTER_PC_def)
  have h1: "registers ((riscv32_create_vm 0x80000000)\<lparr>wait_event := 1\<rparr>) REGISTER_ZERO = 0"
    using h by simp
  show ?thesis
    using riscv32_register_zero_reads_zero[OF h, of x0_writer_env "0x00100013"]
      riscv32_register_zero_reads_zero[OF h1, of x0_writer_env _ 3] h
    by simp
qed

section \<open>Properties of the JIT code cache\<close>

lemma page_bit_lt: "page_bit addr < 32"
proof -
  have "drop_bit 12 addr AND 0x1F \<le> (0x1F::u64)" by (rule word_and_le1)
  then show ?thesis unfolding page_bit_def by unat_arith
qed

lemma page_mask_bit: "page_mask addr = push_bit (page_bit addr) 1"
  by (simp add: page_mask_def page_bit_def)

lemma and_page_mask: "(w AND page_mask addr \<noteq> 0) = bit (w::u32) (page_bit addr)"
  by (simp add: page_mask_bit and_exp_eq_0_iff_not_bit)

lemma bit_or_page_mask:
  "bit ((w::u32) OR page_mask x) n = (bit w n \<or> n = page_bit x)"
  using page_bit_lt[of x]
  by (simp only: page_mask_bit bit_or_iff bit_push_bit_iff bit_1_iff possible_bit_word) auto

lemma bit_and_not_page_mask:
  "bit ((w::u32) AND NOT (page_mask x)) n = (bit w n \<and> n \<noteq> page_bit x)"
  using bit_imp_le_length[of w n]
  by (simp only: page_mask_bit bit_and_iff bit_not_iff bit_push_bit_iff bit_1_iff possible_bit_word) auto

lemma page_mask_nonzero: "page_mask x \<noteq> 0"
  using page_bit_lt[of x] by (simp add: page_mask_bit exp_eq_zero_iff)

lemma mark_dirty_page_Some:
  assumes "memtracking b"
  obtains b' where "rvjit_mark_dirty_page b x = Some b'" "memtracking b'"
    "heap_dirty_mask b' = heap_dirty_mask b" "heap_blocks b' = heap_blocks b"
    "heap_block_links b' = heap_block_links b"
    "\<And>y. page_dirty b y \<Longrightarrow> page_dirty b' y"
    "\<And>y. page_jited b y \<or> page_dirty b y \<Longrightarrow> page_jited b' y \<or> page_dirty b' y"
    "page_jited b x \<or> page_dirty b x \<Longrightarrow> page_dirty b' x"
proof -
  from assms obtain d j where dj: "heap_dirty_pages b = Some d" "heap_jited_pages b = Some j"
    by (auto simp: memtracking_def)
  show thesis
  proof (cases "j (page_offset b x) AND page_mask x \<noteq> 0")
    case False
    then have r: "rvjit_mark_dirty_page b x = Some b"
      by (simp add: rvjit_mark_dirty_page_def dj)
    have "page_jited b x \<or> page_dirty b x \<Longrightarrow> page_dirty b x"
      using False by (simp add: page_jited_def dj)
    with r assms show ?thesis by (intro that[of b]) auto
  next
    case True
    let ?b' = "b\<lparr>heap_dirty_pages :=
                  Some (d(page_offset b x := d (page_offset b x) OR page_mask x)),
                heap_jited_pages :=
                  Some (j(page_offset b x := j (page_offset b x) AND NOT (page_mask x)))\<rparr>"
    have r: "rvjit_mark_dirty_page b x = Some ?b'"
      using True by (simp add: rvjit_mark_dirty_page_def dj)
    have o: "page_offset ?b' y = page_offset b y" for y
      by (simp add: page_offset_def)
    have d1: "page_dirty b y \<Longrightarrow> page_dirty ?b' y" for y
      by (auto simp: page_dirty_def dj o and_page_mask bit_or_page_mask)
    have d2: "page_jited b y \<or> page_dirty b y \<Longrightarrow> page_jited ?b' y \<or> page_dirty ?b' y" for y
      by (auto simp: page_dirty_def page_jited_def dj o and_page_mask bit_or_page_mask
          bit_and_not_page_mask)
    have d3: "page_dirty ?b' x"
      by (simp add: page_dirty_def dj o page_mask_nonzero)
    show ?thesis
      by (rule that[of ?b']) (use r d1 d2 d3 in \<open>simp_all add: memtracking_def\<close>)
  qed
qed

lemma mark_dirty_loop_Some:
  assumes "memtracking b" "unat sz \<le> 2 ^ 64 - 4096"
  shows "\<exists>b'. rvjit_mark_dirty_loop b addr sz i = Some b' \<and> memtracking b' \<and>
           heap_dirty_mask b' = heap_dirty_mask b \<and> heap_blocks b' = heap_blocks b \<and>
           heap_block_links b' = heap_block_links b \<and>
           (\<forall>y. page_dirty b y \<longrightarrow> page_dirty b' y) \<and>
           (\<forall>y. page_jited b y \<or> page_dirty b y \<longrightarrow> page_jited b' y \<or> page_dirty b' y) \<and>
           (\<forall>k. unat i + 4096 * k < unat sz \<longrightarrow>
                page_jited b (addr + i + of_nat (4096 * k)) \<or> page_dirty b (addr + i + of_nat (4096 * k)) \<longrightarrow>
                page_dirty b' (addr + i + of_nat (4096 * k)))"
  using assms(1)
proof (induction "unat sz - unat i" arbitrary: b i rule: less_induct)
  case less
  show ?case
  proof (cases "i < sz")
    case False
    then have "rvjit_mark_dirty_loop b addr sz i = Some b"
      by (subst rvjit_mark_dirty_loop.simps) simp
    moreover have "\<not> unat i + 4096 * k < unat sz" for k
      using False by (simp add: word_less_nat_alt)
    ultimately show ?thesis using less.prems by simp
  next
    case True
    then have lt: "unat i < unat sz" by (simp add: word_less_nat_alt)
    have u: "unat (i + 4096) = unat i + 4096"
    proof -
      have "unat i + unat (4096::u64) < 2 ^ LENGTH(64)" using lt assms(2) by simp
      then have "unat (i + 4096) = unat i + unat (4096::u64)" by (simp only: unat_add_lem)
      then show ?thesis by simp
    qed
    from mark_dirty_page_Some[OF less.prems, of "addr + i"]
    obtain b1 where b1: "rvjit_mark_dirty_page b (addr + i) = Some b1" "memtracking b1"
      "heap_dirty_mask b1 = heap_dirty_mask b" "heap_blocks b1 = heap_blocks b"
      "heap_block_links b1 = heap_block_links b"
      "\<And>y. page_dirty b y \<Longrightarrow> page_dirty b1 y"
      "\<And>y. page_jited b y \<or> page_dirty b y \<Longrightarrow> page_jited b1 y \<or> page_dirty b1 y"
      "page_jited b (addr + i) \<or> page_dirty b (addr + i) \<Longrightarrow> page_dirty b1 (addr + i)"
      by blast
    have m: "unat sz - unat (i + 4096) < unat sz - unat i" using lt u by simp
    from less.hyps[OF m b1(2)]
    obtain b' where b': "rvjit_mark_dirty_loop b1 addr sz (i + 4096) = Some b'" "memtracking b'"
      "heap_dirty_mask b' = heap_dirty_mask b1" "heap_blocks b' = heap_blocks b1"
      "heap_block_links b' = heap_block_links b1"
      "\<forall>y. page_dirty b1 y \<longrightarrow> page_dirty b' y"
      "\<forall>y. page_jited b1 y \<or> page_dirty b1 y \<longrightarrow> page_jited b' y \<or> page_dirty b' y"
      "\<forall>k. unat (i + 4096) + 4096 * k < unat sz \<longrightarrow>
           page_jited b1 (addr + (i + 4096) + of_nat (4096 * k)) \<or>
           page_dirty b1 (addr + (i + 4096) + of_nat (4096 * k)) \<longrightarrow>
           page_dirty b' (addr + (i + 4096) + of_nat (4096 * k))"
      by blast
    have r: "rvjit_mark_dirty_loop b addr sz i = Some b'"
      using True b1(1) b'(1) by (subst rvjit_mark_dirty_loop.simps) simp
    have visited: "page_dirty b' (addr + i + of_nat (4096 * k))"
      if k: "unat i + 4096 * k < unat sz"
        and jd: "page_jited b (addr + i + of_nat (4096 * k)) \<or> page_dirty b (addr + i + of_nat (4096 * k))"
      for k
    proof (cases k)
      case 0
      then show ?thesis using jd b1(8) b'(6) by simp
    next
      case (Suc k')
      have e: "addr + i + of_nat (4096 * k) = addr + (i + 4096) + of_nat (4096 * k')"
        using Suc by simp
      have "unat (i + 4096) + 4096 * k' < unat sz" using k Suc u by simp
      moreover have "page_jited b1 (addr + (i + 4096) + of_nat (4096 * k')) \<or>
                     page_dirty b1 (addr + (i + 4096) + of_nat (4096 * k'))"
        using jd b1(7) unfolding e by blast
      ultimately show ?thesis using b'(8) unfolding e by blast
    qed
    show ?thesis
      using r b'(2) b'(3) b1(3) b'(4) b1(4) b'(5) b1(5) b1(6) b'(6) b1(7) b'(7) visited
      by (intro exI[of _ b']) (simp, blast)
  qed
qed

lemma remove_at_fields:
  "heap_blocks (rvjit_remove_at b k) = (heap_blocks b)(k := None)"
  "heap_block_links (rvjit_remove_at b k) = (heap_block_links b)(k := None)"
  by (auto simp: rvjit_remove_at_def Let_def split: option.splits)

lemma fold_remove_at:
  "heap_blocks (fold (\<lambda>i b. rvjit_remove_at b (base + of_nat i)) [0..<n] b)
     = (\<lambda>k. if \<exists>i<n. k = base + of_nat i then None else heap_blocks b k) \<and>
   heap_block_links (fold (\<lambda>i b. rvjit_remove_at b (base + of_nat i)) [0..<n] b)
     = (\<lambda>k. if \<exists>i<n. k = base + of_nat i then None else heap_block_links b k)"
proof (induction n)
  case 0
  then show ?case by simp
next
  case (Suc n)
  let ?f = "fold (\<lambda>i b. rvjit_remove_at b (base + of_nat i)) [0..<n] b"
  have s: "fold (\<lambda>i b. rvjit_remove_at b (base + of_nat i)) [0..<Suc n] b
             = rvjit_remove_at ?f (base + of_nat n)"
    by simp
  have 1: "heap_blocks (rvjit_remove_at ?f (base + of_nat n))
             = (\<lambda>k. if \<exists>i<Suc n. k = base + of_nat i then None else heap_blocks b k)"
    unfolding remove_at_fields using Suc by (intro ext) (auto simp: less_Suc_eq)
  have 2: "heap_block_links (rvjit_remove_at ?f (base + of_nat n))
             = (\<lambda>k. if \<exists>i<Suc n. k = base + of_nat i then None else heap_block_links b k)"
    unfolding remove_at_fields using Suc by (intro ext) (auto simp: less_Suc_eq)
  show ?case unfolding s using 1 2 by blast
qed

lemma xFFF_mask: "(0xFFF::u64) = mask 12"
  by (simp add: mask_eq_exp_minus_1)

lemma page_base: "(a::u64) AND NOT 0xFFF = push_bit 12 (page_of a)"
  unfolding xFFF_mask page_of_def
  by (rule bit_word_eqI) (auto simp: bit_simps)

lemma page_of_base_plus:
  assumes "i < 4096"
  shows "page_of (push_bit 12 x + of_nat i) = (x :: u64) AND mask 52"
proof -
  have t: "(of_nat i :: u64) = take_bit 12 (of_nat i)"
    using assms by (simp add: take_bit_of_nat take_bit_nat_eq_self)
  have d: "push_bit 12 x + (of_nat i :: u64) = push_bit 12 x OR of_nat i"
    by (rule disjunctive_add) (subst t, simp add: bit_simps)
  show ?thesis unfolding d page_of_def
    by (rule bit_word_eqI) (subst t, auto simp: bit_simps)
qed

lemma page_of_mask52: "page_of a AND mask 52 = page_of a"
proof (rule bit_word_eqI)
  fix n assume "n < LENGTH(64)"
  show "bit (page_of a AND mask 52) n = bit (page_of a) n"
    using bit_imp_le_length[of a "12 + n"] by (auto simp: page_of_def bit_simps)
qed

lemma in_page_iff:
  "(\<exists>i<4096. k = (a AND NOT 0xFFF) + of_nat i) = (page_of k = page_of a)"
proof
  assume "\<exists>i<4096. k = (a AND NOT 0xFFF) + of_nat i"
  then obtain i where i: "i < 4096" "k = push_bit 12 (page_of a) + of_nat i"
    unfolding page_base by blast
  show "page_of k = page_of a"
    unfolding i(2) page_of_base_plus[OF i(1)] by (rule page_of_mask52)
next
  assume e: "page_of k = page_of a"
  have "k = push_bit 12 (drop_bit 12 k) + take_bit 12 k" by (simp only: bits_ident)
  also have "\<dots> = (a AND NOT 0xFFF) + of_nat (unat (take_bit 12 k))"
    using e unfolding page_base by (simp add: page_of_def)
  finally have "k = (a AND NOT 0xFFF) + of_nat (unat (take_bit 12 k))" .
  moreover have "unat (take_bit 12 k) < 4096"
  proof -
    have "take_bit 12 k \<le> (0xFFF::u64)"
      unfolding xFFF_mask take_bit_eq_mask by (rule word_and_le1)
    then show ?thesis by unat_arith
  qed
  ultimately show "\<exists>i<4096. k = (a AND NOT 0xFFF) + of_nat i" by blast
qed

lemma same_page_bits:
  assumes "page_of a = page_of q"
  shows "page_offset b a = page_offset b q" and "page_mask a = page_mask q"
proof -
  have "drop_bit 17 a = drop_bit 5 (page_of a)" "drop_bit 17 q = drop_bit 5 (page_of q)"
    by (simp_all add: page_of_def)
  then show "page_offset b a = page_offset b q" using assms by (simp add: page_offset_def)
  show "page_mask a = page_mask q" using assms by (simp add: page_mask_def page_of_def)
qed

lemma same_page_dirty: "page_of a = page_of q \<Longrightarrow> page_dirty b a = page_dirty b q"
  using same_page_bits(1)[of a q b] same_page_bits(2)[of a q]
  by (simp add: page_dirty_def split: option.splits)

lemma block_lookup_dirty:
  assumes "page_dirty b a"
  shows "fst (rvjit_block_lookup b a) = 0"
    and "heap_blocks (snd (rvjit_block_lookup b a))
           = (\<lambda>pc. if page_of pc = page_of a then None else heap_blocks b pc)"
    and "heap_block_links (snd (rvjit_block_lookup b a))
           = (\<lambda>pc. if page_of pc = page_of a then None else heap_block_links b pc)"
proof -
  from assms obtain d where d: "heap_dirty_pages b = Some d"
      "d (page_offset b a) AND page_mask a \<noteq> 0"
    by (auto simp: page_dirty_def split: option.splits)
  let ?b1 = "b\<lparr>heap_dirty_pages :=
               Some (d(page_offset b a := d (page_offset b a) AND NOT (page_mask a)))\<rparr>"
  have l: "rvjit_block_lookup b a =
             (0, fold (\<lambda>i b. rvjit_remove_at b ((a AND NOT 0xFFF) + of_nat i)) [0..<4096] ?b1)"
    using d by (simp add: rvjit_block_lookup_def rvjit_page_needs_flush_def del: upt_Suc)
  have fb: "heap_blocks (fold (\<lambda>i b. rvjit_remove_at b ((a AND NOT 0xFFF) + of_nat i)) [0..<4096] ?b1)
              = (\<lambda>k. if page_of k = page_of a then None else heap_blocks ?b1 k)"
    by (simp only: conjunct1[OF fold_remove_at] in_page_iff)
  have fl: "heap_block_links (fold (\<lambda>i b. rvjit_remove_at b ((a AND NOT 0xFFF) + of_nat i)) [0..<4096] ?b1)
              = (\<lambda>k. if page_of k = page_of a then None else heap_block_links ?b1 k)"
    by (simp only: conjunct2[OF fold_remove_at] in_page_iff)
  show "fst (rvjit_block_lookup b a) = 0" unfolding l by (simp only: fst_conv)
  show "heap_blocks (snd (rvjit_block_lookup b a))
           = (\<lambda>pc. if page_of pc = page_of a then None else heap_blocks b pc)"
    unfolding l snd_conv fb by (rule ext) simp
  show "heap_block_links (snd (rvjit_block_lookup b a))
           = (\<lambda>pc. if page_of pc = page_of a then None else heap_block_links b pc)"
    unfolding l snd_conv fl by (rule ext) simp
qed

text \<open>
  Claim C5, as amended. With memory tracking on, a length \<open>n\<close> for which the loop
  counter cannot wrap, and an address \<open>p + 4096 * k\<close> that \<open>rvjit_mark_dirty_mem\<close>
  visits (\<open>4096 * k < n\<close>) whose page is marked jited or is already dirty:
  \<open>rvjit_mark_dirty_mem(block, p, n)\<close> returns and leaves both registries as they were,
  and the next \<open>rvjit_block_lookup\<close> of any address \<open>a\<close> in that page returns null and
  removes exactly the block entries and the pending link lists whose physical PC lies
  in that page.
\<close>

theorem rvjit_dirty_page_invalidates:
  assumes "memtracking block" and "unat n \<le> 2 ^ 64 - 4096" and "4096 * k < unat n"
    and "page_jited block (p + of_nat (4096 * k)) \<or> page_dirty block (p + of_nat (4096 * k))"
    and "page_of a = page_of (p + of_nat (4096 * k))"
  shows "\<exists>b1. rvjit_mark_dirty_mem block p n = Some b1 \<and>
           heap_blocks b1 = heap_blocks block \<and> heap_block_links b1 = heap_block_links block \<and>
           fst (rvjit_block_lookup b1 a) = 0 \<and>
           heap_blocks (snd (rvjit_block_lookup b1 a))
             = (\<lambda>pc. if page_of pc = page_of a then None else heap_blocks block pc) \<and>
           heap_block_links (snd (rvjit_block_lookup b1 a))
             = (\<lambda>pc. if page_of pc = page_of a then None else heap_block_links block pc)"
proof -
  from mark_dirty_loop_Some[OF assms(1,2), of p 0]
  obtain b1 where B: "rvjit_mark_dirty_loop block p n 0 = Some b1 \<and> memtracking b1 \<and>
           heap_dirty_mask b1 = heap_dirty_mask block \<and> heap_blocks b1 = heap_blocks block \<and>
           heap_block_links b1 = heap_block_links block \<and>
           (\<forall>y. page_dirty block y \<longrightarrow> page_dirty b1 y) \<and>
           (\<forall>y. page_jited block y \<or> page_dirty block y \<longrightarrow> page_jited b1 y \<or> page_dirty b1 y) \<and>
           (\<forall>k. unat (0::u64) + 4096 * k < unat n \<longrightarrow>
                page_jited block (p + 0 + of_nat (4096 * k)) \<or> page_dirty block (p + 0 + of_nat (4096 * k)) \<longrightarrow>
                page_dirty b1 (p + 0 + of_nat (4096 * k)))"
    by (rule exE)
  note b1 = B[THEN conjunct1] B[THEN conjunct2, THEN conjunct2, THEN conjunct2, THEN conjunct1] B[THEN conjunct2, THEN conjunct2, THEN conjunct2, THEN conjunct2, THEN conjunct1]
    B[THEN conjunct2, THEN conjunct2, THEN conjunct2, THEN conjunct2, THEN conjunct2, THEN conjunct2, THEN conjunct2]
  have m: "rvjit_mark_dirty_mem block p n = Some b1"
    using assms(1) b1(1) by (auto simp: rvjit_mark_dirty_mem_def memtracking_def)
  have "page_dirty b1 (p + of_nat (4096 * k))"
    using b1(4)[rule_format, of k] assms(3,4) by simp
  then have d: "page_dirty b1 a" by (simp only: same_page_dirty[OF assms(5)])
  note l = block_lookup_dirty[OF d]
  show ?thesis
  proof (intro exI[of _ b1] conjI)
    show "rvjit_mark_dirty_mem block p n = Some b1" by (rule m)
    show "heap_blocks b1 = heap_blocks block" by (rule b1(2))
    show "heap_block_links b1 = heap_block_links block" by (rule b1(3))
    show "fst (rvjit_block_lookup b1 a) = 0" by (rule l(1))
    show "heap_blocks (snd (rvjit_block_lookup b1 a))
             = (\<lambda>pc. if page_of pc = page_of a then None else heap_blocks block pc)"
      by (simp only: l(2) b1(2))
    show "heap_block_links (snd (rvjit_block_lookup b1 a))
             = (\<lambda>pc. if page_of pc = page_of a then None else heap_block_links block pc)"
      by (simp only: l(3) b1(3))
  qed
qed

lemma tracked_block_fields:
  "heap_dirty_pages tracked_block = Some (\<lambda>_. 0)"
  "heap_jited_pages tracked_block = Some ((\<lambda>_. 0)(0 := 2))"
  "heap_dirty_mask tracked_block = 0x7FF"
  "heap_blocks tracked_block = [0x1234 \<mapsto> 0x7F0000000000]"
  "heap_block_links tracked_block = [0x1238 \<mapsto> [0x7F0000000010]]"
  by (simp_all add: tracked_block_def rvjit_mark_jited_page_def page_offset_def page_mask_def)

text \<open>
  The invalidation scenario: a block at \<open>0x1234\<close> is registered and its page marked
  jited; one byte of the page is written; a lookup in the page misses and leaves no
  entry of the page in either registry.
\<close>

theorem rvjit_dirty_page_invalidates_witness:
  "memtracking tracked_block \<and> unat (1::u64) \<le> 2 ^ 64 - 4096 \<and> 4096 * 0 < unat (1::u64) \<and>
   page_jited tracked_block (0x1234 + of_nat (4096 * 0)) \<and>
   page_of 0x1238 = page_of (0x1234 + of_nat (4096 * 0)) \<and>
   hashmap_get (heap_blocks tracked_block) 0x1234 = 0x7F0000000000 \<and>
   (\<exists>b1. rvjit_mark_dirty_mem tracked_block 0x1234 1 = Some b1 \<and>
      fst (rvjit_block_lookup b1 0x1238) = 0 \<and>
      heap_blocks (snd (rvjit_block_lookup b1 0x1238)) 0x1234 = None \<and>
      heap_block_links (snd (rvjit_block_lookup b1 0x1238)) 0x1238 = None)"
proof -
  have h1: "memtracking tracked_block"
    by (simp add: memtracking_def tracked_block_fields)
  have h2: "unat (1::u64) \<le> 2 ^ 64 - 4096" by simp
  have h3: "4096 * 0 < unat (1::u64)" by simp
  have h4: "page_jited tracked_block (0x1234 + of_nat (4096 * 0))"
    by (simp add: page_jited_def tracked_block_fields page_offset_def page_mask_def)
  have h5: "page_of 0x1238 = page_of (0x1234 + of_nat (4096 * 0))"
    by (simp add: page_of_def)
  have p: "page_of 0x1234 = page_of 0x1238" by (simp add: page_of_def)
  have g: "hashmap_get (heap_blocks tracked_block) 0x1234 = 0x7F0000000000"
    by (simp add: hashmap_get_def tracked_block_fields)
  from rvjit_dirty_page_invalidates[OF h1 h2 h3 disjI1[OF h4] h5]
  obtain b1 where "rvjit_mark_dirty_mem tracked_block 0x1234 1 = Some b1"
    "fst (rvjit_block_lookup b1 0x1238) = 0"
    "heap_blocks (snd (rvjit_block_lookup b1 0x1238))
       = (\<lambda>pc. if page_of pc = page_of 0x1238 then None else heap_blocks tracked_block pc)"
    "heap_block_links (snd (rvjit_block_lookup b1 0x1238))
       = (\<lambda>pc. if page_of pc = page_of 0x1238 then None else heap_block_links tracked_block pc)"
    by blast
  then have "rvjit_mark_dirty_mem tracked_block 0x1234 1 = Some b1 \<and>
      fst (rvjit_block_lookup b1 0x1238) = 0 \<and>
      heap_blocks (snd (rvjit_block_lookup b1 0x1238)) 0x1234 = None \<and>
      heap_block_links (snd (rvjit_block_lookup b1 0x1238)) 0x1238 = None"
    using p by simp
  then show ?thesis using h1 h2 h3 h4 h5 g by blast
qed

lemma untracked_needs_flush:
  "rvjit_page_needs_flush untracked_block 0x1000 = (False, untracked_block)"
  by (simp add: rvjit_page_needs_flush_def untracked_block_def)

text \<open>
  Claim C5 as stated fails: without memory tracking \<open>rvjit_mark_dirty_mem\<close> returns at
  once, and the first lookup in the written page still returns the registered entry
  point and removes nothing.
\<close>

theorem rvjit_untracked_lookup_hits:
  "rvjit_mark_dirty_mem untracked_block 0x1000 1 = Some untracked_block \<and>
   rvjit_block_lookup untracked_block 0x1000 = (0x7F0000000000, untracked_block)"
proof
  show "rvjit_mark_dirty_mem untracked_block 0x1000 1 = Some untracked_block"
    by (simp add: rvjit_mark_dirty_mem_def untracked_block_def)
  have "hashmap_get (heap_blocks untracked_block) 0x1000 = 0x7F0000000000"
    by (simp add: hashmap_get_def untracked_block_def)
  then show "rvjit_block_lookup untracked_block 0x1000 = (0x7F0000000000, untracked_block)"
    unfolding rvjit_block_lookup_def untracked_needs_flush by (simp only: prod.case bool.case)
qed

lemma fold_zero_words:
  "fold (\<lambda>i d. d(of_nat i := 0)) [0..<n] (dirty :: u64 \<Rightarrow> u32)
     = (\<lambda>k. if \<exists>i<n. k = of_nat i then 0 else dirty k)"
proof (induction n)
  case 0
  then show ?case by simp
next
  case (Suc n)
  have "fold (\<lambda>i d. d(of_nat i := 0)) [0..<Suc n] dirty
          = (fold (\<lambda>i d. d(of_nat i := 0)) [0..<n] dirty)(of_nat n := 0)"
    by simp
  also have "\<dots> = (\<lambda>k. if \<exists>i<n. k = of_nat i then 0 else dirty k)(of_nat n := 0)"
    by (simp only: Suc.IH)
  also have "\<dots> = (\<lambda>k. if \<exists>i<Suc n. k = of_nat i then 0 else dirty k)"
    by (rule ext) (auto simp: less_Suc_eq)
  finally show ?case .
qed

lemma fold_zero_words_idem:
  "fold (\<lambda>i d. d(of_nat i := 0)) [0..<n]
     (fold (\<lambda>i d. d(of_nat i := 0)) [0..<n] (dirty :: u64 \<Rightarrow> u32))
   = fold (\<lambda>i d. d(of_nat i := 0)) [0..<n] dirty"
  unfolding fold_zero_words by (rule ext) auto

text \<open>
  Claim C9. \<open>rvjit_flush_cache\<close> is idempotent: two calls in a row leave the whole
  block, and with it the block registry, the link registry, the bump cursor, the
  dirty-page words and the block under construction, as one call does.
\<close>

theorem rvjit_flush_cache_idempotent:
  "rvjit_flush_cache e0 (rvjit_flush_cache e0 block) = rvjit_flush_cache e0 block"
  by (cases "heap_dirty_pages block")
     (simp_all add: rvjit_flush_cache_def Let_def rvjit_block_init_def rvjit_emit_init_def
        rvjit_linker_cleanup_def vma_clean_def fold_zero_words_idem del: upt_Suc)

lemma flush_cache_fields:
  "heap_blocks (rvjit_flush_cache e0 block) = Map.empty"
  "heap_block_links (rvjit_flush_cache e0 block) = Map.empty"
  "heap_curr (rvjit_flush_cache e0 block) = 0"
  by (cases "heap_dirty_pages block";
      simp add: rvjit_flush_cache_def Let_def rvjit_block_init_def rvjit_emit_init_def
        rvjit_linker_cleanup_def vma_clean_def del: upt_Suc)+

theorem rvjit_flush_cache_idempotent_witness:
  "rvjit_flush_cache () (rvjit_flush_cache () tracked_block) = rvjit_flush_cache () tracked_block \<and>
   heap_blocks (rvjit_flush_cache () tracked_block) = Map.empty \<and>
   heap_curr (rvjit_flush_cache () tracked_block) = 0 \<and>
   heap_blocks tracked_block \<noteq> Map.empty"
proof -
  have "heap_blocks tracked_block 0x1234 \<noteq> None"
    by (simp add: tracked_block_fields)
  then have "heap_blocks tracked_block \<noteq> Map.empty" by auto
  then show ?thesis
    using rvjit_flush_cache_idempotent[of "()" tracked_block]
    by (simp only: flush_cache_fields) simp
qed

section \<open>Properties of the CSR file\<close>

lemma helper_masked_snd:
  "snd (riscv_csr_helper_masked vm csr dest m op) = csr AND (if \<not> rv64 vm then m AND 0xFFFFFFFF else m)"
  by (simp add: riscv_csr_helper_masked_def Let_def)

lemma helper_snd:
  "snd (riscv_csr_helper vm csr dest op) = (if rv64 vm then csr else csr AND (- 1 AND 0xFFFFFFFF))"
  by (simp add: riscv_csr_helper_def Let_def helper_masked_snd)

lemma helper_l_snd:
  "snd (riscv_csr_helper_l vm csr dest m op) = csr AND (if \<not> rv64 vm then m AND 0xFFFFFFFF else m)"
  by (simp add: riscv_csr_helper_l_def split_beta helper_masked_snd)

lemma helper_h_fst: "fst (riscv_csr_helper_h vm csr dest m op) = (\<not> rv64 vm)"
  by (simp add: riscv_csr_helper_h_def split_beta)

lemma helper_h_snd:
  "snd (snd (riscv_csr_helper_h vm csr dest m op)) =
     (if \<not> rv64 vm then drop_bit 32 csr AND (drop_bit 32 m AND 0xFFFFFFFF) else dest)"
  by (simp add: riscv_csr_helper_h_def split_beta helper_masked_snd)

lemma helper_h_fail:
  "rv64 vm \<Longrightarrow> riscv_csr_helper_h vm csr dest m op = (False, csr, dest)"
  by (simp add: riscv_csr_helper_h_def)

named_theorems csr_ok and csr_dest and csr_fail

lemma const_ok [csr_ok]: "fst (riscv_csr_const vm val) = True"
  and const_dest [csr_dest]: "snd (snd (riscv_csr_const vm val)) = val"
  and zero_ok [csr_ok]: "fst (riscv_csr_zero vm) = True"
  and zero_dest [csr_dest]: "snd (snd (riscv_csr_zero vm)) = 0"
  by (simp_all add: riscv_csr_const_def riscv_csr_zero_def)

lemma zero_h_ok [csr_ok]: "fst (riscv_csr_zero_h vm dest) = (\<not> rv64 vm)"
  and zero_h_dest [csr_dest]: "snd (snd (riscv_csr_zero_h vm dest)) = (if \<not> rv64 vm then 0 else dest)"
  and zero_h_fail [csr_fail]: "rv64 vm \<Longrightarrow> riscv_csr_zero_h vm dest = (False, vm, dest)"
  by (simp_all add: riscv_csr_zero_h_def riscv_csr_const_def)

lemma time_ok [csr_ok]: "fst (riscv_csr_time env vm dest) = riscv_csr_timer_enabled env vm"
  and time_dest [csr_dest]: "snd (snd (riscv_csr_time env vm dest)) =
        (if riscv_csr_timer_enabled env vm then rvtimer_get env else dest)"
  and time_fail [csr_fail]: "\<not> riscv_csr_timer_enabled env vm \<Longrightarrow> riscv_csr_time env vm dest = (False, vm, dest)"
  by (simp_all add: riscv_csr_time_def riscv_csr_const_def)

lemma timeh_ok [csr_ok]: "fst (riscv_csr_timeh env vm dest) = (\<not> rv64 vm \<and> riscv_csr_timer_enabled env vm)"
  and timeh_dest [csr_dest]: "snd (snd (riscv_csr_timeh env vm dest)) =
        (if \<not> rv64 vm \<and> riscv_csr_timer_enabled env vm then drop_bit 32 (rvtimer_get env) else dest)"
  and timeh_fail [csr_fail]: "\<not> (\<not> rv64 vm \<and> riscv_csr_timer_enabled env vm) \<Longrightarrow>
        riscv_csr_timeh env vm dest = (False, vm, dest)"
  by (simp_all add: riscv_csr_timeh_def riscv_csr_const_def)

lemma seed_ok [csr_ok]: "fst (riscv_csr_seed env vm dest) = riscv_csr_seed_enabled env vm"
  and seed_dest [csr_dest]: "snd (snd (riscv_csr_seed env vm dest)) =
        (if riscv_csr_seed_enabled env vm then ucast (rvvm_randombytes env) else dest)"
  and seed_fail [csr_fail]: "\<not> riscv_csr_seed_enabled env vm \<Longrightarrow> riscv_csr_seed env vm dest = (False, vm, dest)"
  by (simp_all add: riscv_csr_seed_def riscv_csr_const_def)

lemma misa_ok [csr_ok]: "fst (riscv_csr_misa env vm dest op) = True"
  and misa_dest [csr_dest]: "snd (snd (riscv_csr_misa env vm dest op)) =
        (if rv64 vm then hcsr_isa vm OR riscv_mkmisa ''imafdcbsu''
         else (hcsr_isa vm OR riscv_mkmisa ''imafdcbsu'') AND (- 1 AND 0xFFFFFFFF))"
  using helper_snd[of vm "hcsr_isa vm OR riscv_mkmisa ''imafdcbsu''" dest op]
  by (simp_all add: riscv_csr_misa_def Let_def split_beta del: riscv_mkmisa_letters.simps)

lemma status_ok [csr_ok]: "fst (riscv_csr_status env vm dest m op) = True"
  and status_dest [csr_dest]: "snd (snd (riscv_csr_status env vm dest m op)) =
        (if bit_cut (hcsr_status vm) 15 2 = FS_DIRTY
         then (hcsr_status vm AND (if \<not> rv64 vm then m AND 0xFFFFFFFF else m)) OR riscv_csr_sd_bit vm
         else hcsr_status vm AND (if \<not> rv64 vm then m AND 0xFFFFFFFF else m))"
  by (simp_all add: riscv_csr_status_def Let_def split_beta helper_masked_snd riscv_csr_sd_bit_def)

lemma ie_ok [csr_ok]: "fst (riscv_csr_ie env vm dest m op) = True"
  and ie_dest [csr_dest]: "snd (snd (riscv_csr_ie env vm dest m op)) =
        hcsr_ie vm AND (if \<not> rv64 vm then m AND 0xFFFFFFFF else m)"
  by (simp_all add: riscv_csr_ie_def split_beta helper_masked_snd)

lemma ip_ok [csr_ok]: "fst (riscv_csr_ip env vm dest m op) = True"
  and ip_dest [csr_dest]: "snd (snd (riscv_csr_ip env vm dest m op)) =
        (hcsr_ip vm AND (if \<not> rv64 vm then m AND 0xFFFFFFFF else m)) OR (ucast (pending_irqs vm) AND m)"
  by (simp_all add: riscv_csr_ip_def Let_def split_beta helper_masked_snd riscv_interrupts_raised_def)

lemma stimecmp_ok [csr_ok]: "fst (riscv_csr_stimecmp env vm dest op) = riscv_csr_sstc_enabled env vm"
  and stimecmp_dest [csr_dest]: "snd (snd (riscv_csr_stimecmp env vm dest op)) =
        (if riscv_csr_sstc_enabled env vm
         then hart_stimecmp vm AND (if \<not> rv64 vm then - 1 AND 0xFFFFFFFF else - 1) else dest)"
  and stimecmp_fail [csr_fail]: "\<not> riscv_csr_sstc_enabled env vm \<Longrightarrow>
        riscv_csr_stimecmp env vm dest op = (False, vm, dest)"
  by (simp_all add: riscv_csr_stimecmp_def split_beta helper_l_snd)

lemma stimecmph_ok [csr_ok]:
    "fst (riscv_csr_stimecmph env vm dest op) = (\<not> rv64 vm \<and> riscv_csr_sstc_enabled env vm)"
  and stimecmph_dest [csr_dest]: "snd (snd (riscv_csr_stimecmph env vm dest op)) =
        (if \<not> rv64 vm \<and> riscv_csr_sstc_enabled env vm
         then drop_bit 32 (hart_stimecmp vm) AND (drop_bit 32 (- 1) AND 0xFFFFFFFF) else dest)"
  and stimecmph_fail [csr_fail]: "\<not> (\<not> rv64 vm \<and> riscv_csr_sstc_enabled env vm) \<Longrightarrow>
        riscv_csr_stimecmph env vm dest op = (False, vm, dest)"
  by (simp_all add: riscv_csr_stimecmph_def split_beta helper_h_snd)

lemma satp_ok [csr_ok]:
    "fst (riscv_csr_satp env vm dest op) = (hcsr_status vm AND CSR_STATUS_TVM = 0)"
  and satp_dest [csr_dest]: "snd (snd (riscv_csr_satp env vm dest op)) =
        (if hcsr_status vm AND CSR_STATUS_TVM = 0 then
           (if rv64 vm
            then push_bit 60 (ucast (hart_mmu_mode vm)) OR drop_bit MMU_PAGE_SHIFT (hart_root_page_table vm)
            else (push_bit 31 (ucast (hart_mmu_mode vm)) OR drop_bit MMU_PAGE_SHIFT (hart_root_page_table vm))
                   AND (- 1 AND 0xFFFFFFFF))
         else dest)"
  and satp_fail [csr_fail]: "hcsr_status vm AND CSR_STATUS_TVM \<noteq> 0 \<Longrightarrow>
        riscv_csr_satp env vm dest op = (False, vm, dest)"
  by (simp_all add: riscv_csr_satp_def Let_def split_beta helper_snd)

lemma fflags_ok [csr_ok]: "fst (riscv_csr_fflags env vm dest op) = fpu_is_enabled env vm"
  and fflags_dest [csr_dest]: "snd (snd (riscv_csr_fflags env vm dest op)) =
        (if fpu_is_enabled env vm
         then (hcsr_fcsr vm OR ucast (fpu_get_exceptions vm)) AND (if \<not> rv64 vm then 0x1F AND 0xFFFFFFFF else 0x1F)
         else dest)"
  and fflags_fail [csr_fail]: "\<not> fpu_is_enabled env vm \<Longrightarrow>
        riscv_csr_fflags env vm dest op = (False, vm, dest)"
  by (simp_all add: riscv_csr_fflags_def Let_def split_beta helper_masked_snd)

lemma frm_ok [csr_ok]: "fst (riscv_csr_frm env vm dest op) = fpu_is_enabled env vm"
  and frm_dest [csr_dest]: "snd (snd (riscv_csr_frm env vm dest op)) =
        (if fpu_is_enabled env vm
         then drop_bit 5 (hcsr_fcsr vm) AND (if \<not> rv64 vm then 0x7 AND 0xFFFFFFFF else 0x7)
         else dest)"
  and frm_fail [csr_fail]: "\<not> fpu_is_enabled env vm \<Longrightarrow>
        riscv_csr_frm env vm dest op = (False, vm, dest)"
  by (simp_all add: riscv_csr_frm_def Let_def split_beta helper_masked_snd)

lemma fcsr_ok [csr_ok]: "fst (riscv_csr_fcsr env vm dest op) = fpu_is_enabled env vm"
  and fcsr_dest [csr_dest]: "snd (snd (riscv_csr_fcsr env vm dest op)) =
        (if fpu_is_enabled env vm
         then (hcsr_fcsr vm OR ucast (fpu_get_exceptions vm)) AND (if \<not> rv64 vm then 0xFF AND 0xFFFFFFFF else 0xFF)
         else dest)"
  and fcsr_fail [csr_fail]: "\<not> fpu_is_enabled env vm \<Longrightarrow>
        riscv_csr_fcsr env vm dest op = (False, vm, dest)"
  by (simp_all add: riscv_csr_fcsr_def Let_def split_beta helper_masked_snd)

lemma direct_ok [csr_ok]: "fst (csr_direct vm rd wr dest op) = True"
  and direct_dest [csr_dest]: "snd (snd (csr_direct vm rd wr dest op)) =
        (if rv64 vm then rd vm else rd vm AND (- 1 AND 0xFFFFFFFF))"
  by (simp_all add: csr_direct_def split_beta helper_snd)

lemma masked_ok [csr_ok]: "fst (csr_masked vm rd wr dest m op) = True"
  and masked_dest [csr_dest]: "snd (snd (csr_masked vm rd wr dest m op)) =
        rd vm AND (if \<not> rv64 vm then m AND 0xFFFFFFFF else m)"
  by (simp_all add: csr_masked_def split_beta helper_masked_snd)

lemma low_ok [csr_ok]: "fst (csr_low vm rd wr dest m op) = True"
  and low_dest [csr_dest]: "snd (snd (csr_low vm rd wr dest m op)) =
        rd vm AND (if \<not> rv64 vm then m AND 0xFFFFFFFF else m)"
  by (simp_all add: csr_low_def split_beta helper_l_snd)

lemma high_ok [csr_ok]: "fst (csr_high vm rd wr dest m op) = (\<not> rv64 vm)"
  and high_dest [csr_dest]: "snd (snd (csr_high vm rd wr dest m op)) =
        (if \<not> rv64 vm then drop_bit 32 (rd vm) AND (drop_bit 32 m AND 0xFFFFFFFF) else dest)"
  by (simp_all add: csr_high_def split_beta helper_h_fst helper_h_snd)

lemma high_fail [csr_fail]:
  "rv64 vm \<Longrightarrow> wr (rd vm) = vm \<Longrightarrow> csr_high vm rd wr dest m op = (False, vm, dest)"
  by (simp add: csr_high_def helper_h_fail)

lemma if_fst_both:
  "(c \<Longrightarrow> fst a = fst a') \<Longrightarrow> (\<not> c \<Longrightarrow> fst b = fst b') \<Longrightarrow>
   fst (if c then a else b) = fst (if c then a' else b')"
  by simp

lemma if_dest_both:
  "(c \<Longrightarrow> fst a \<longrightarrow> snd (snd a) = snd (snd a')) \<Longrightarrow>
   (\<not> c \<Longrightarrow> fst b \<longrightarrow> snd (snd b) = snd (snd b')) \<Longrightarrow>
   fst (if c then a else b) \<longrightarrow> snd (snd (if c then a else b)) = snd (snd (if c then a' else b'))"
  by simp

lemma internal_ok_indep:
  "fst (riscv_csr_op_internal env vm c d op) = fst (riscv_csr_op_internal env vm c d' op')"
  unfolding riscv_csr_op_internal_def
  by (intro if_fst_both) (simp_all only: csr_ok fst_conv)

lemma internal_dest_indep:
  "fst (riscv_csr_op_internal env vm c d op) \<longrightarrow>
   snd (snd (riscv_csr_op_internal env vm c d op)) = snd (snd (riscv_csr_op_internal env vm c d' op'))"
  unfolding riscv_csr_op_internal_def
  by (intro if_dest_both) (simp_all add: csr_ok csr_dest)

lemma if_fail_both:
  "(c \<Longrightarrow> \<not> fst a \<longrightarrow> a = r) \<Longrightarrow> (\<not> c \<Longrightarrow> \<not> fst b \<longrightarrow> b = r) \<Longrightarrow>
   \<not> fst (if c then a else b) \<longrightarrow> (if c then a else b) = r"
  by simp

lemma internal_fail:
  "\<not> fst (riscv_csr_op_internal env vm c d op) \<longrightarrow> riscv_csr_op_internal env vm c d op = (False, vm, d)"
  unfolding riscv_csr_op_internal_def
  by (intro if_fail_both) (simp_all add: csr_ok csr_fail)

lemma internal_read:
  "fst (riscv_csr_op_internal env vm c d op) \<Longrightarrow>
   snd (snd (riscv_csr_op_internal env vm c d op)) = csr_read_value env vm c"
  unfolding csr_read_value_def using internal_dest_indep[of env vm c d op 0 CSR_SETBITS] by simp

text \<open>
  Claim C1, as amended. For every CSR id, operation kind and input value: when
  \<open>riscv_csr_op\<close> returns success, it leaves in \<open>v\<close> the value the CSR held immediately
  before the operation (what a read of it yields in that state, whatever the
  operation and the input were), sign-extended from bit 31 when the hart is in 32-bit
  mode afterwards. When it returns failure, the hart is unchanged and \<open>v\<close> is what the
  caller passed: untouched when the read-only or the privilege check refuses,
  sign-extended from bit 31 when the dispatch refuses in 32-bit mode.
\<close>

theorem riscv_csr_op_value:
  "(fst (riscv_csr_op env vm c v op) \<longrightarrow>
      snd (snd (riscv_csr_op env vm c v op)) =
        (if rv64 (fst (snd (riscv_csr_op env vm c v op))) then csr_read_value env vm c
         else int32_cast (csr_read_value env vm c))) \<and>
   (\<not> fst (riscv_csr_op env vm c v op) \<longrightarrow>
      fst (snd (riscv_csr_op env vm c v op)) = vm \<and>
      snd (snd (riscv_csr_op env vm c v op)) =
        (if (riscv_csr_readonly c \<and> (op = CSR_SWAP \<or> v \<noteq> 0))
            \<or> riscv_csr_privilege c > hart_priv_mode vm \<or> rv64 vm
         then v else int32_cast v))"
proof (cases "(riscv_csr_readonly c \<and> (op = CSR_SWAP \<or> v \<noteq> 0)) \<or> riscv_csr_privilege c > hart_priv_mode vm")
  case True
  then have "riscv_csr_op env vm c v op = (False, vm, v)"
    by (auto simp: riscv_csr_op_def)
  then show ?thesis using True by auto
next
  case False
  obtain ret vm' d where r: "riscv_csr_op_internal env vm c v op = (ret, vm', d)"
    by (cases "riscv_csr_op_internal env vm c v op") auto
  have o: "riscv_csr_op env vm c v op = (ret, vm', if \<not> rv64 vm' then int32_cast d else d)"
    using False r by (auto simp: riscv_csr_op_def)
  show ?thesis
  proof (cases ret)
    case True
    then have "d = csr_read_value env vm c" using internal_read[of env vm c v op] r by simp
    then show ?thesis using True o by simp
  next
    case nret: False
    then have "vm' = vm \<and> d = v" using internal_fail[of env vm c v op] r by simp
    then show ?thesis using nret False o by auto
  qed
qed

lemmas csr_ids = CSR_FFLAGS_def CSR_FRM_def CSR_FCSR_def CSR_SEED_def CSR_CYCLE_def CSR_TIME_def
  CSR_INSTRET_def CSR_CYCLEH_def CSR_TIMEH_def CSR_INSTRETH_def CSR_SSTATUS_def CSR_SIE_def
  CSR_STVEC_def CSR_SCOUNTEREN_def CSR_SENVCFG_def CSR_SSCRATCH_def CSR_SEPC_def CSR_SCAUSE_def
  CSR_STVAL_def CSR_SIP_def CSR_STIMECMP_def CSR_STIMECMPH_def CSR_SATP_def CSR_MVENDORID_def
  CSR_MARCHID_def CSR_MIMPID_def CSR_MHARTID_def CSR_MSTATUS_def CSR_MISA_def CSR_MEDELEG_def
  CSR_MIDELEG_def CSR_MIE_def CSR_MTVEC_def CSR_MCOUNTEREN_def CSR_MENVCFG_def CSR_MSTATUSH_def
  CSR_MENVCFGH_def CSR_MCOUNTINHIBIT_def CSR_MSCRATCH_def CSR_MEPC_def CSR_MCAUSE_def
  CSR_MTVAL_def CSR_MIP_def CSR_MSECCFG_def CSR_MSECCFGH_def CSR_MCYCLE_def CSR_MINSTRET_def
  CSR_MCYCLEH_def CSR_MINSTRETH_def

lemma internal_mscratch:
  "riscv_csr_op_internal env vm CSR_MSCRATCH d op =
     csr_direct vm (\<lambda>v. hcsr_scratch v PRIVILEGE_MACHINE)
       (\<lambda>c. vm\<lparr>hcsr_scratch := (hcsr_scratch vm)(PRIVILEGE_MACHINE := c)\<rparr>) d op"
  by (simp add: riscv_csr_op_internal_def csr_ids)

lemma internal_mhartid:
  "riscv_csr_op_internal env vm CSR_MHARTID d op = riscv_csr_const vm (hcsr_hartid vm)"
  by (simp add: riscv_csr_op_internal_def csr_ids)

lemma internal_satp:
  "riscv_csr_op_internal env vm CSR_SATP d op = riscv_csr_satp env vm d op"
  by (simp add: riscv_csr_op_internal_def csr_ids)

lemma csr_access_bits:
  "riscv_csr_readonly CSR_MHARTID" "\<not> riscv_csr_readonly CSR_MSCRATCH" "\<not> riscv_csr_readonly CSR_SATP"
  "riscv_csr_privilege CSR_MHARTID = PRIVILEGE_MACHINE"
  "riscv_csr_privilege CSR_MSCRATCH = PRIVILEGE_MACHINE"
  "riscv_csr_privilege CSR_SATP = PRIVILEGE_SUPERVISOR"
  by (simp_all add: riscv_csr_readonly_def riscv_csr_privilege_def csr_ids priv_defs)

lemma op_mscratch_machine:
  "riscv_csr_op open_env machine_hart CSR_MSCRATCH 0x99 CSR_SWAP =
     (True, machine_hart\<lparr>hcsr_scratch := (hcsr_scratch machine_hart)(PRIVILEGE_MACHINE := 0x99)\<rparr>, 0x1234)"
  by (simp add: riscv_csr_op_def csr_access_bits internal_mscratch csr_direct_def riscv_csr_helper_def
      Let_def) (simp add: machine_hart_def priv_defs)

lemma op_mscratch_user:
  "riscv_csr_op open_env user_hart CSR_MSCRATCH 5 CSR_SWAP = (False, user_hart, 5)"
  by (simp add: riscv_csr_op_def csr_access_bits) (simp add: user_hart_def priv_defs)

lemma op_mhartid_swap:
  "riscv_csr_op open_env machine_hart CSR_MHARTID v CSR_SWAP = (False, machine_hart, v)"
  by (simp add: riscv_csr_op_def csr_access_bits)

lemma op_mhartid_read:
  "riscv_csr_op open_env machine_hart CSR_MHARTID 0 CSR_SETBITS = (True, machine_hart, 7)"
  by (simp add: riscv_csr_op_def csr_access_bits internal_mhartid riscv_csr_const_def)
     (simp add: machine_hart_def priv_defs)

text \<open>
  A swap of \<open>mscratch\<close> in machine mode returns the old value \<open>0x1234\<close>; the same swap
  in user mode fails and leaves the caller's 5.
\<close>

theorem riscv_csr_op_value_witness:
  "fst (riscv_csr_op open_env machine_hart CSR_MSCRATCH 0x99 CSR_SWAP) \<and>
   hcsr_scratch machine_hart PRIVILEGE_MACHINE = 0x1234 \<and>
   csr_read_value open_env machine_hart CSR_MSCRATCH = 0x1234 \<and>
   snd (snd (riscv_csr_op open_env machine_hart CSR_MSCRATCH 0x99 CSR_SWAP)) = 0x1234 \<and>
   \<not> fst (riscv_csr_op open_env user_hart CSR_MSCRATCH 5 CSR_SWAP) \<and>
   fst (snd (riscv_csr_op open_env user_hart CSR_MSCRATCH 5 CSR_SWAP)) = user_hart \<and>
   snd (snd (riscv_csr_op open_env user_hart CSR_MSCRATCH 5 CSR_SWAP)) = 5"
proof -
  have s: "hcsr_scratch machine_hart PRIVILEGE_MACHINE = 0x1234" "rv64 machine_hart"
    by (simp_all add: machine_hart_def)
  have rd: "csr_read_value open_env machine_hart CSR_MSCRATCH = 0x1234"
    by (simp add: csr_read_value_def internal_mscratch csr_direct_def riscv_csr_helper_def Let_def s)
  show ?thesis
    using riscv_csr_op_value[of open_env machine_hart CSR_MSCRATCH "0x99" CSR_SWAP]
      riscv_csr_op_value[of open_env user_hart CSR_MSCRATCH 5 CSR_SWAP]
    by (simp add: op_mscratch_machine op_mscratch_user s rd)
qed

text \<open>
  Claim C1 as stated fails: a swap of 5 into the read-only \<open>mhartid\<close>, which holds 7,
  returns failure and leaves 5 in \<open>v\<close>, not the 7 that a read returns.
\<close>

theorem riscv_csr_op_failure_keeps_value:
  "riscv_csr_op open_env machine_hart CSR_MHARTID 5 CSR_SWAP = (False, machine_hart, 5) \<and>
   hcsr_hartid machine_hart = 7 \<and>
   riscv_csr_op open_env machine_hart CSR_MHARTID 0 CSR_SETBITS = (True, machine_hart, 7)"
  by (simp add: op_mhartid_swap op_mhartid_read) (simp add: machine_hart_def)

text \<open>
  Claim C7, as amended. For a CSR id whose upper two bits are 11, \<open>riscv_csr_op\<close>
  fails on the read-only ground exactly when the operation is a SWAP, whatever its
  source value, or the value is non-zero: it then returns failure with the hart and
  \<open>v\<close> untouched. SETBITS and CLEARBITS with value zero pass the read-only check, and
  the outcome is that of the privilege check and the dispatch.
\<close>

theorem riscv_csr_op_readonly:
  assumes "riscv_csr_readonly c"
  shows "(op = CSR_SWAP \<or> v \<noteq> 0 \<longrightarrow> riscv_csr_op env vm c v op = (False, vm, v)) \<and>
         (op \<noteq> CSR_SWAP \<and> v = 0 \<longrightarrow>
            riscv_csr_op env vm c v op =
              (if riscv_csr_privilege c > hart_priv_mode vm then (False, vm, v)
               else (let (ret, vm', dest') = riscv_csr_op_internal env vm c v op
                     in (ret, vm', if \<not> rv64 vm' then int32_cast dest' else dest'))))"
  using assms by (simp add: riscv_csr_op_def)

theorem riscv_csr_op_readonly_witness:
  "riscv_csr_readonly CSR_MHARTID \<and>
   riscv_csr_op open_env machine_hart CSR_MHARTID 5 CSR_SETBITS = (False, machine_hart, 5) \<and>
   riscv_csr_op open_env machine_hart CSR_MHARTID 0 CSR_SWAP = (False, machine_hart, 0) \<and>
   riscv_csr_op open_env machine_hart CSR_MHARTID 0 CSR_CLEARBITS = (True, machine_hart, 7) \<and>
   riscv_csr_op open_env user_hart CSR_MHARTID 0 CSR_CLEARBITS = (False, user_hart, 0)"
proof -
  have p: "hart_priv_mode machine_hart = PRIVILEGE_MACHINE" "hart_priv_mode user_hart = PRIVILEGE_USER"
      "rv64 machine_hart" "hcsr_hartid machine_hart = 7"
    by (simp_all add: machine_hart_def user_hart_def)
  have lt: "PRIVILEGE_USER < PRIVILEGE_MACHINE" by (simp add: priv_defs)
  show ?thesis
    using riscv_csr_op_readonly[OF csr_access_bits(1), of CSR_SETBITS 5 open_env machine_hart]
      riscv_csr_op_readonly[OF csr_access_bits(1), of CSR_SWAP 0 open_env machine_hart]
      riscv_csr_op_readonly[OF csr_access_bits(1), of CSR_CLEARBITS 0 open_env machine_hart]
      riscv_csr_op_readonly[OF csr_access_bits(1), of CSR_CLEARBITS 0 open_env user_hart]
    by (simp add: csr_access_bits p lt internal_mhartid riscv_csr_const_def)
qed

text \<open>
  Claim C7 as stated fails: in machine mode a SWAP of zero into \<open>mhartid\<close> fails,
  while setting no bits of it succeeds.
\<close>

theorem riscv_csr_op_swap_zero_fails:
  "riscv_csr_readonly CSR_MHARTID \<and>
   riscv_csr_op open_env machine_hart CSR_MHARTID 0 CSR_SWAP = (False, machine_hart, 0) \<and>
   riscv_csr_op open_env machine_hart CSR_MHARTID 0 CSR_SETBITS = (True, machine_hart, 7)"
  by (simp add: op_mhartid_swap op_mhartid_read csr_access_bits)

lemma satp_tlb:
  "fst (riscv_csr_satp env vm d op) \<Longrightarrow>
   (let vm' = fst (snd (riscv_csr_satp env vm d op)) in
      if (hart_mmu_mode vm' \<noteq> CSR_SATP_MODE_PHYS) \<noteq> (hart_mmu_mode vm \<noteq> CSR_SATP_MODE_PHYS)
      then tlb_flushes vm' = Suc (tlb_flushes vm) \<and> hart_tlb vm' = Map.empty
      else tlb_flushes vm' = tlb_flushes vm \<and> hart_tlb vm' = hart_tlb vm)"
  by (cases "rv64 vm")
     (auto simp: riscv_csr_satp_def Let_def split_beta riscv_tlb_flush_def CSR_SATP_MODE_PHYS_def
        split: if_splits)

text \<open>
  Claim C6. A CSR access to \<open>satp\<close> fails whenever \<open>STATUS.TVM\<close> is set, and leaves
  the hart, its MMU mode and root page table included, unchanged. When the access
  succeeds, \<open>riscv_tlb_flush\<close> is called (once, emptying the TLB) if the MMU mode
  changed between BARE and a paged mode, and is not called otherwise.
\<close>

theorem riscv_csr_satp_tvm_and_flush:
  "(hcsr_status vm AND CSR_STATUS_TVM \<noteq> 0 \<longrightarrow>
      \<not> fst (riscv_csr_op env vm CSR_SATP v op) \<and>
      fst (snd (riscv_csr_op env vm CSR_SATP v op)) = vm) \<and>
   (fst (riscv_csr_op env vm CSR_SATP v op) \<longrightarrow>
      (let vm' = fst (snd (riscv_csr_op env vm CSR_SATP v op)) in
         if (hart_mmu_mode vm' \<noteq> CSR_SATP_MODE_PHYS) \<noteq> (hart_mmu_mode vm \<noteq> CSR_SATP_MODE_PHYS)
         then tlb_flushes vm' = Suc (tlb_flushes vm) \<and> hart_tlb vm' = Map.empty
         else tlb_flushes vm' = tlb_flushes vm \<and> hart_tlb vm' = hart_tlb vm))"
proof (intro conjI impI)
  assume t: "hcsr_status vm AND CSR_STATUS_TVM \<noteq> 0"
  have i: "riscv_csr_op_internal env vm CSR_SATP v op = (False, vm, v)"
    using t by (simp add: internal_satp satp_fail)
  show "\<not> fst (riscv_csr_op env vm CSR_SATP v op)"
    by (simp add: riscv_csr_op_def i)
  show "fst (snd (riscv_csr_op env vm CSR_SATP v op)) = vm"
    by (simp add: riscv_csr_op_def i)
next
  assume s: "fst (riscv_csr_op env vm CSR_SATP v op)"
  then have ok: "\<not> riscv_csr_privilege CSR_SATP > hart_priv_mode vm"
    by (auto simp: riscv_csr_op_def split: if_splits)
  have e: "fst (riscv_csr_op env vm CSR_SATP v op) = fst (riscv_csr_satp env vm v op)"
      "fst (snd (riscv_csr_op env vm CSR_SATP v op)) = fst (snd (riscv_csr_satp env vm v op))"
    using ok by (simp_all add: riscv_csr_op_def csr_access_bits internal_satp split_beta)
  show "let vm' = fst (snd (riscv_csr_op env vm CSR_SATP v op)) in
         if (hart_mmu_mode vm' \<noteq> CSR_SATP_MODE_PHYS) \<noteq> (hart_mmu_mode vm \<noteq> CSR_SATP_MODE_PHYS)
         then tlb_flushes vm' = Suc (tlb_flushes vm) \<and> hart_tlb vm' = Map.empty
         else tlb_flushes vm' = tlb_flushes vm \<and> hart_tlb vm' = hart_tlb vm"
    unfolding e(2) using satp_tlb[of env vm v op] s e(1) by simp
qed

lemma satp_sv39_machine:
  "riscv_csr_satp open_env machine_hart 0x8000000000080000 CSR_SWAP =
     (True,
      riscv_tlb_flush (machine_hart\<lparr>hart_mmu_mode := CSR_SATP_MODE_SV39,
                                     hart_root_page_table := 0x80000000\<rparr>),
      0)"
proof -
  have f: "rv64 machine_hart" "hcsr_status machine_hart AND CSR_STATUS_TVM = 0"
      "hart_mmu_mode machine_hart = 0" "hart_root_page_table machine_hart = 0"
    by (simp_all add: machine_hart_def CSR_STATUS_TVM_def CSR_SATP_MODE_PHYS_def)
  have c: "(ucast (bit_cut (0x8000000000080000::u64) 60 4) :: u8) = 8"
      "push_bit MMU_PAGE_SHIFT ((0x8000000000080000::u64) AND bit_mask 44) = 0x80000000"
    by (simp_all add: bit_cut_def bit_mask_def mask_eq_exp_minus_1 MMU_PAGE_SHIFT_def)
  show ?thesis
    by (simp add: riscv_csr_satp_def Let_def f riscv_csr_helper_def c CSR_SATP_MODE_SV39_def
        CSR_SATP_MODE_SV48_def CSR_SATP_MODE_SV57_def CSR_SATP_MODE_PHYS_def MMU_PAGE_SHIFT_def
        bit_mask_def mask_eq_exp_minus_1)
qed

theorem riscv_csr_satp_tvm_and_flush_witness:
  "hcsr_status tvm_hart AND CSR_STATUS_TVM \<noteq> 0 \<and>
   \<not> fst (riscv_csr_op open_env tvm_hart CSR_SATP 0x8000000000080000 CSR_SWAP) \<and>
   fst (snd (riscv_csr_op open_env tvm_hart CSR_SATP 0x8000000000080000 CSR_SWAP)) = tvm_hart \<and>
   fst (riscv_csr_op open_env machine_hart CSR_SATP 0x8000000000080000 CSR_SWAP) \<and>
   hart_mmu_mode (fst (snd (riscv_csr_op open_env machine_hart CSR_SATP 0x8000000000080000 CSR_SWAP)))
     = CSR_SATP_MODE_SV39 \<and>
   hart_mmu_mode machine_hart = CSR_SATP_MODE_PHYS \<and>
   tlb_flushes (fst (snd (riscv_csr_op open_env machine_hart CSR_SATP 0x8000000000080000 CSR_SWAP)))
     = Suc (tlb_flushes machine_hart) \<and>
   hart_tlb (fst (snd (riscv_csr_op open_env machine_hart CSR_SATP 0x8000000000080000 CSR_SWAP)))
     = Map.empty"
proof -
  have t: "hcsr_status tvm_hart AND CSR_STATUS_TVM \<noteq> 0"
    by (simp add: tvm_hart_def CSR_STATUS_TVM_def)
  have p: "hart_priv_mode machine_hart = PRIVILEGE_MACHINE" "hart_mmu_mode machine_hart = CSR_SATP_MODE_PHYS"
    by (simp_all add: machine_hart_def)
  have lt: "\<not> PRIVILEGE_MACHINE < PRIVILEGE_SUPERVISOR" by (simp add: priv_defs)
  have m: "riscv_csr_op open_env machine_hart CSR_SATP 0x8000000000080000 CSR_SWAP =
     (True,
      riscv_tlb_flush (machine_hart\<lparr>hart_mmu_mode := CSR_SATP_MODE_SV39,
                                     hart_root_page_table := 0x80000000\<rparr>),
      0)"
    by (simp add: riscv_csr_op_def csr_access_bits p lt internal_satp satp_sv39_machine)
       (simp add: riscv_tlb_flush_def machine_hart_def)
  have ne: "CSR_SATP_MODE_SV39 \<noteq> CSR_SATP_MODE_PHYS"
    by (simp add: CSR_SATP_MODE_SV39_def CSR_SATP_MODE_PHYS_def)
  show ?thesis
    using riscv_csr_satp_tvm_and_flush[of tvm_hart open_env "0x8000000000080000" CSR_SWAP]
      riscv_csr_satp_tvm_and_flush[of machine_hart open_env "0x8000000000080000" CSR_SWAP] t
    unfolding m by (simp add: riscv_tlb_flush_def p ne)
qed

section \<open>main.c: exit codes\<close>

lemma get_arg_consumed:
  "fst (get_arg argv) = 1 \<or> (fst (get_arg argv) = 2 \<and> tl argv \<noteq> [] \<and> \<not> is_option (hd (tl argv)))"
  by (simp add: get_arg_def Let_def is_option_def)

lemma get_arg_name:
  "is_option (hd argv) \<Longrightarrow> fst (snd (get_arg argv)) = option_name (hd argv)"
  by (simp add: get_arg_def Let_def is_option_def option_name_def)

lemma parse_args_loop_unrecognised:
  assumes "argv \<noteq> []"
    and "list_all (\<lambda>name. \<not> cmp_arg (fst (snd (get_arg argv))) name) recognised_options"
  shows "parse_args_loop h argv (args, lvl) = (False, args, lvl)"
proof -
  obtain n name val where g: "get_arg argv = (n, name, val)" by (cases "get_arg argv")
  show ?thesis
    using assms by (subst parse_args_loop.simps) (simp add: g recognised_options_def)
qed

lemma parse_args_loop_continues:
  assumes "argv \<noteq> []" and "fst (parse_args_loop h argv (args, lvl))"
  shows "\<exists>s'. parse_args_loop h argv (args, lvl) = parse_args_loop h (drop (fst (get_arg argv)) argv) s'"
proof -
  obtain n name val where g: "get_arg argv = (n, name, val)" by (cases "get_arg argv")
  have e: "parse_args_loop h argv (args, lvl) =
     (if cmp_arg name ''dtb'' then parse_args_loop h (drop n argv) (args\<lparr>dtb := Some val\<rparr>, lvl)
      else if cmp_arg name ''image'' then parse_args_loop h (drop n argv) (args\<lparr>image := Some val\<rparr>, lvl)
      else if cmp_arg name ''bootrom'' then parse_args_loop h (drop n argv) (args\<lparr>bootrom := Some val\<rparr>, lvl)
      else if cmp_arg name ''kernel'' then parse_args_loop h (drop n argv) (args\<lparr>kernel := Some val\<rparr>, lvl)
      else if cmp_arg name ''mem'' then
              parse_args_loop h (drop n argv)
                (if name \<noteq> [] then
                   args\<lparr>mem := push_bit
                            (mem_suffix_shift
                               (if val \<noteq> [] then last val
                                else if CHR ''='' \<in> set name then CHR ''=''
                                else stray_byte h))
                            (word_of_int (atoi h val))\<rparr>
                 else args, lvl)
      else if cmp_arg name ''smp'' then
              (if (word_of_int (atoi h val) :: u32) > 1024
               then (False, args\<lparr>smp := word_of_int (atoi h val)\<rparr>, lvl)
               else parse_args_loop h (drop n argv) (args\<lparr>smp := word_of_int (atoi h val)\<rparr>, lvl))
      else if cmp_arg name ''rv64'' then parse_args_loop h (drop n argv) (args\<lparr>args_rv64 := True\<rparr>, lvl)
      else if cmp_arg name ''verbose'' then parse_args_loop h (drop n argv) (args, LOG_INFO)
      else (False, args, lvl))"
    using assms(1) by (subst parse_args_loop.simps) (simp add: g)
  show ?thesis
    using assms(2) unfolding e g fst_conv
    by (simp split: if_splits) blast+
qed

lemma parse_args_loop_unknown:
  "\<exists>a \<in> set argv. unknown_option a \<Longrightarrow> \<not> fst (parse_args_loop h argv s)"
proof (induction argv arbitrary: s rule: length_induct)
  case (1 argv)
  obtain args lvl where s: "s = (args, lvl)" by (cases s)
  from 1(2) obtain a where a: "a \<in> set argv" "unknown_option a" by blast
  hence ne: "argv \<noteq> []" by auto
  show ?case
  proof (cases "fst (parse_args_loop h argv (args, lvl))")
    case False
    thus ?thesis by (simp add: s)
  next
    case True
    from parse_args_loop_continues[OF ne True]
    obtain s' where
      st: "parse_args_loop h argv (args, lvl) = parse_args_loop h (drop (fst (get_arg argv)) argv) s'"
      by (rule exE)
    have known: "\<not> list_all (\<lambda>name. \<not> cmp_arg (fst (snd (get_arg argv))) name) recognised_options"
      using parse_args_loop_unrecognised[OF ne, of h args lvl] True by auto
    have hd_known: "\<not> unknown_option (hd argv)"
      using known get_arg_name[of argv] by (auto simp: unknown_option_def)
    hence "a \<noteq> hd argv" using a(2) by auto
    hence atl: "a \<in> set (tl argv)" using a(1) ne by (cases argv) auto
    have "a \<in> set (drop (fst (get_arg argv)) argv)"
    proof -
      from get_arg_consumed[of argv] show ?thesis
      proof
        assume "fst (get_arg argv) = 1"
        thus ?thesis using atl by (simp add: drop_Suc)
      next
        assume two: "fst (get_arg argv) = 2 \<and> tl argv \<noteq> [] \<and> \<not> is_option (hd (tl argv))"
        hence "a \<noteq> hd (tl argv)" using a(2) by (auto simp: unknown_option_def)
        hence "a \<in> set (tl (tl argv))" using atl two by (cases "tl argv") auto
        moreover have "drop 2 argv = tl (tl argv)"
          by (simp add: drop_Suc numeral_2_eq_2)
        ultimately show ?thesis using two by simp
      qed
    qed
    moreover have "length (drop (fst (get_arg argv)) argv) < length argv"
      using get_arg_consumed[of argv] ne by auto
    ultimately have "\<not> fst (parse_args_loop h (drop (fst (get_arg argv)) argv) s')"
      using 1(1) a(2) by blast
    thus ?thesis using st True by simp
  qed
qed

text \<open>
  Claim C10, as amended. When an argument after the program name begins with a
  dash and its option name is not a prefix of any of the names \<open>parse_args\<close> compares
  with, \<open>parse_args\<close> reports failure and \<open>main\<close> exits with code 0, on every host and
  whatever the other arguments are. \<open>rvvm_run_with_args\<close> returns 0 exactly when the
  machine was created, the boot ROM and the device tree (when one is given) were
  loaded and the machine shut down, and returns 1 when the machine cannot be created
  or the boot ROM cannot be loaded.
\<close>

theorem rvvm_unknown_option_exit:
  assumes "a \<in> set (tl argv)" and "unknown_option a"
  shows "\<not> fst (parse_args h argv (zero_args, LOG_WARN)) \<and> rvvm_main h argv = Some 0
         \<and> (rvvm_run_with_args h args = Some 0 \<longleftrightarrow>
              rvvm_create_machine h args \<and> load_bootrom h args
              \<and> (dtb args \<noteq> None \<longrightarrow> load_dtb h args) \<and> machine_shuts_down h args)
         \<and> (\<not> rvvm_create_machine h args \<or> \<not> load_bootrom h args \<longrightarrow>
              rvvm_run_with_args h args = Some 1)"
proof -
  have p: "\<not> fst (parse_args h argv (zero_args, LOG_WARN))"
    unfolding parse_args_def using assms by (intro parse_args_loop_unknown) blast
  hence "rvvm_main h argv = Some 0"
    by (cases "parse_args h argv (zero_args, LOG_WARN)") (simp add: rvvm_main_def)
  moreover have "rvvm_run_with_args h args = Some 0 \<longleftrightarrow>
              rvvm_create_machine h args \<and> load_bootrom h args
              \<and> (dtb args \<noteq> None \<longrightarrow> load_dtb h args) \<and> machine_shuts_down h args"
    by (auto simp: rvvm_run_with_args_def)
  moreover have "\<not> rvvm_create_machine h args \<or> \<not> load_bootrom h args \<longrightarrow>
              rvvm_run_with_args h args = Some 1"
    by (auto simp: rvvm_run_with_args_def)
  ultimately show ?thesis using p by blast
qed

text \<open>
  The theorem at the command line \<open>rvvm fw.bin -x\<close>, on a host where everything
  succeeds and on one where no machine can be created.
\<close>

theorem rvvm_unknown_option_exit_witness:
  "unknown_option ''-x'' \<and> rvvm_main working_host [''rvvm'', ''fw.bin'', ''-x''] = Some 0
   \<and> rvvm_run_with_args working_host (zero_args\<lparr>bootrom := Some ''fw.bin''\<rparr>) = Some 0
   \<and> rvvm_run_with_args failing_host (zero_args\<lparr>bootrom := Some ''fw.bin''\<rparr>) = Some 1"
  using rvvm_unknown_option_exit[of "''-x''" "[''rvvm'', ''fw.bin'', ''-x'']" working_host "zero_args\<lparr>bootrom := Some ''fw.bin''\<rparr>"]
        rvvm_unknown_option_exit[of "''-x''" "[''rvvm'', ''fw.bin'', ''-x'']" failing_host "zero_args\<lparr>bootrom := Some ''fw.bin''\<rparr>"]
  by (simp add: unknown_option_def is_option_def option_name_def recognised_options_def
        working_host_def failing_host_def zero_args_def)


text \<open>
  Claim C10 as stated fails: \<open>rvvm -x\<close> names an option that is not recognised and
  \<open>main\<close> exits with code 0; and \<open>rvvm fw.bin\<close> on a host where no machine can be
  created exits with code 0 as well, since \<open>main\<close> does not look at what
  \<open>rvvm_run_with_args\<close> returns.
\<close>

theorem rvvm_main_exits_zero:
  "unknown_option ''-x'' \<and> rvvm_main failing_host [''rvvm'', ''-x''] = Some 0
   \<and> \<not> rvvm_create_machine failing_host (fst (snd (parse_args failing_host [''rvvm'', ''fw.bin''] (zero_args, LOG_WARN))))
   \<and> rvvm_main failing_host [''rvvm'', ''fw.bin''] = Some 0"
  by code_simp

end
